theory Spec2Isabelle
  imports Complex_Main
begin

section \<open>Python values used by the program\<close>

text \<open>
  The record store (\<open>rmmz_tools.py\<close>) works on whatever \<open>json.load\<close> returned, and the
  agents keep free-form dictionaries. Such values are modelled by \<open>json\<close>. A dictionary is
  an association list in insertion order whose keys are distinct. JSON numbers with a
  fraction are outside the model. Strings are lists of 8-bit characters, and the
  case-changing functions below treat the ASCII letters only.
\<close>

datatype json =
    JNull
  | JBool bool
  | JInt int
  | JStr string
  | JList "json list"
  | JDict "(string \<times> json) list"

type_synonym py_dict = "(string \<times> json) list"

text \<open>The exceptions a call of the facade can end with.\<close>

datatype py_error =
    AttributeError
  | TypeError
  | ValueError
  | OverflowError
  | MemoryError
  | OSError
  | RecursionError

text \<open>\<open>d.get(k, default)\<close> and \<open>d[k] = v\<close>.\<close>

definition dict_get :: "py_dict \<Rightarrow> string \<Rightarrow> json \<Rightarrow> json" where
  "dict_get d k dflt = (case map_of d k of None \<Rightarrow> dflt | Some v \<Rightarrow> v)"

primrec dict_set :: "py_dict \<Rightarrow> string \<Rightarrow> json \<Rightarrow> py_dict" where
  "dict_set [] k v = [(k, v)]"
| "dict_set (p # ps) k v = (if fst p = k then (k, v) # ps else p # dict_set ps k v)"

text \<open>Truth value of a JSON value, as \<open>if not map_data\<close> tests it.\<close>

fun py_truthy :: "json \<Rightarrow> bool" where
  "py_truthy JNull = False"
| "py_truthy (JBool b) = b"
| "py_truthy (JInt n) = (n \<noteq> 0)"
| "py_truthy (JStr s) = (s \<noteq> [])"
| "py_truthy (JList xs) = (xs \<noteq> [])"
| "py_truthy (JDict d) = (d \<noteq> [])"

text \<open>
  The values \<open>max\<close> can order and \<open>+ 1\<close> can increment: integers, and booleans, which
  Python counts as 0 and 1.
\<close>

fun py_num :: "json \<Rightarrow> int option" where
  "py_num (JInt n) = Some n"
| "py_num (JBool b) = Some (if b then 1 else 0)"
| "py_num v = None"

subsection \<open>Strings\<close>

definition upper_letters :: string where
  "upper_letters = ''ABCDEFGHIJKLMNOPQRSTUVWXYZ''"

definition lower_letters :: string where
  "lower_letters = ''abcdefghijklmnopqrstuvwxyz''"

definition is_upper :: "char \<Rightarrow> bool" where
  "is_upper c = (c \<in> set upper_letters)"

definition is_lower :: "char \<Rightarrow> bool" where
  "is_lower c = (c \<in> set lower_letters)"

definition lower_char :: "char \<Rightarrow> char" where
  "lower_char c = (case map_of (zip upper_letters lower_letters) c of None \<Rightarrow> c | Some d \<Rightarrow> d)"

definition upper_char :: "char \<Rightarrow> char" where
  "upper_char c = (case map_of (zip lower_letters upper_letters) c of None \<Rightarrow> c | Some d \<Rightarrow> d)"

text \<open>\<open>s.lower()\<close>.\<close>

definition py_lower :: "string \<Rightarrow> string" where
  "py_lower s = map lower_char s"

text \<open>
  \<open>s.title()\<close>: a letter that follows a letter is lowered, any other letter is raised.
  The flag is Python's \<open>previous_is_cased\<close>.
\<close>

fun title_from :: "bool \<Rightarrow> string \<Rightarrow> string" where
  "title_from prev [] = []"
| "title_from prev (c # cs) =
     (if is_lower c then (if prev then c else upper_char c) # title_from True cs
      else if is_upper c then (if prev then lower_char c else c) # title_from True cs
      else c # title_from False cs)"

definition py_title :: "string \<Rightarrow> string" where
  "py_title s = title_from False s"

text \<open>
  \<open>s.replace(old, new)\<close> for a non-empty \<open>old\<close> (both call sites pass a literal):
  occurrences are replaced from the left and do not overlap.
\<close>

fun py_replace :: "string \<Rightarrow> string \<Rightarrow> string \<Rightarrow> string" where
  "py_replace old new [] = []"
| "py_replace old new (c # cs) =
     (if old \<noteq> [] \<and> take (length old) (c # cs) = old
      then new @ py_replace old new (drop (length old) (c # cs))
      else c # py_replace old new cs)"

text \<open>\<open>s.startswith(p)\<close>.\<close>

definition startswith :: "string \<Rightarrow> string \<Rightarrow> bool" where
  "startswith s p = (take (length p) s = p)"

text \<open>
  \<open>str(n)\<close> for an integer. The interpreter refuses to convert between a string and an
  integer of more decimal digits than \<open>sys.get_int_max_str_digits()\<close> (4300 unless it was
  changed; 0 switches the check off, and numbers of up to 640 digits are never checked);
  \<open>str\<close>, the format \<open>{n:03d}\<close> and \<open>int\<close> then raise \<open>ValueError\<close>. \<open>digits_ok limit k\<close>
  says that \<open>k\<close> digits pass under the limit \<open>limit\<close>.
\<close>

definition digit_chars :: string where
  "digit_chars = ''0123456789''"

function digits10 :: "nat \<Rightarrow> string" where
  "digits10 n =
     (if n < 10 then [digit_chars ! n]
      else digits10 (n div 10) @ [digit_chars ! (n mod 10)])"
  by pat_completeness auto
termination
  by (relation "measure id") auto

definition decimal :: "int \<Rightarrow> string" where
  "decimal i = (if i < 0 then CHR ''-'' # digits10 (nat (- i)) else digits10 (nat i))"

definition digits_ok :: "nat \<Rightarrow> nat \<Rightarrow> bool" where
  "digits_ok limit k = (limit = 0 \<or> k \<le> limit \<or> k \<le> 640)"

definition printable :: "nat \<Rightarrow> int \<Rightarrow> bool" where
  "printable limit i = digits_ok limit (length (digits10 (nat \<bar>i\<bar>)))"

definition py_str :: "nat \<Rightarrow> int \<Rightarrow> py_error + string" where
  "py_str limit i = (if printable limit i then Inr (decimal i) else Inl ValueError)"

text \<open>
  \<open>int(s)\<close> for a string: surrounding white space is dropped, one sign is allowed, and
  the digits may be grouped by single underscores; the digits, without the underscores,
  are counted against the limit. Anything else raises \<open>ValueError\<close> (\<open>None\<close> here). The
  white space is the tab, the line feed, the vertical tab, the form feed, the carriage
  return and the space, and of the characters above 127 the next-line character 0x85 and
  the no-break space 0xA0; the separators 0x1C to 0x1F are not skipped. The digits are the
  ASCII ones: no character from 128 to 255 is a decimal digit.
\<close>

definition is_space :: "char \<Rightarrow> bool" where
  "is_space c = (c \<in> set [CHR '' '', CHR 0x09, CHR 0x0A, CHR 0x0B, CHR 0x0C, CHR 0x0D,
                            CHR 0x85, CHR 0xA0])"

definition py_strip :: "string \<Rightarrow> string" where
  "py_strip s = rev (dropWhile is_space (rev (dropWhile is_space s)))"

definition is_digit :: "char \<Rightarrow> bool" where
  "is_digit c = (c \<in> set digit_chars)"

definition digit_val :: "char \<Rightarrow> nat" where
  "digit_val c = (case map_of (zip digit_chars [0, 1, 2, 3, 4, 5, 6, 7, 8, 9]) c of None \<Rightarrow> 0 | Some d \<Rightarrow> d)"

fun digit_groups_ok :: "string \<Rightarrow> bool" where
  "digit_groups_ok [] = False"
| "digit_groups_ok [c] = is_digit c"
| "digit_groups_ok (c # d # cs) =
     (is_digit c \<and> (if d = CHR ''_'' then digit_groups_ok cs else digit_groups_ok (d # cs)))"

definition parse_nat :: "nat \<Rightarrow> string \<Rightarrow> nat option" where
  "parse_nat limit s =
     (if digit_groups_ok s \<and> digits_ok limit (length (filter (\<lambda>c. c \<noteq> CHR ''_'') s))
      then Some (foldl (\<lambda>acc c. acc * 10 + digit_val c) 0 (filter (\<lambda>c. c \<noteq> CHR ''_'') s))
      else None)"

definition py_int :: "nat \<Rightarrow> string \<Rightarrow> int option" where
  "py_int limit s =
     (case py_strip s of
        [] \<Rightarrow> None
      | c # cs \<Rightarrow>
          if c = CHR ''-'' then map_option (\<lambda>n. - int n) (parse_nat limit cs)
          else if c = CHR ''+'' then map_option int (parse_nat limit cs)
          else map_option int (parse_nat limit (c # cs)))"

section \<open>The record store facade (\<open>rmmz_tools.py\<close>)\<close>

record EventCommand =
  code :: int
  parameters :: "json list"
  indent :: int

record EventPage =
  conditions :: py_dict
  image :: py_dict
  move_type :: int
  move_speed :: int
  move_frequency :: int
  move_route :: py_dict
  walk_anime :: bool
  step_anime :: bool
  direction_fix :: bool
  through :: bool
  priority_type :: int
  trigger :: int
  page_list :: "EventCommand list"

text \<open>The field defaults of the two pydantic models.\<close>

definition new_EventCommand :: "int \<Rightarrow> json list \<Rightarrow> EventCommand" where
  "new_EventCommand c ps = \<lparr>code = c, parameters = ps, indent = 0\<rparr>"

definition default_EventPage :: EventPage where
  "default_EventPage =
     \<lparr>conditions = [], image = [], move_type = 0, move_speed = 3, move_frequency = 3,
      move_route = [], walk_anime = True, step_anime = False, direction_fix = False,
      through = False, priority_type = 1, trigger = 0, page_list = []\<rparr>"

text \<open>\<open>cmd.dict()\<close> and \<open>page.dict()\<close>.\<close>

definition EventCommand_dict :: "EventCommand \<Rightarrow> json" where
  "EventCommand_dict c =
     JDict [(''code'', JInt (code c)), (''parameters'', JList (parameters c)),
            (''indent'', JInt (indent c))]"

definition EventPage_dict :: "EventPage \<Rightarrow> json" where
  "EventPage_dict p =
     JDict [(''conditions'', JDict (conditions p)), (''image'', JDict (image p)),
            (''move_type'', JInt (move_type p)), (''move_speed'', JInt (move_speed p)),
            (''move_frequency'', JInt (move_frequency p)),
            (''move_route'', JDict (move_route p)),
            (''walk_anime'', JBool (walk_anime p)), (''step_anime'', JBool (step_anime p)),
            (''direction_fix'', JBool (direction_fix p)), (''through'', JBool (through p)),
            (''priority_type'', JInt (priority_type p)), (''trigger'', JInt (trigger p)),
            (''list'', JList (map EventCommand_dict (page_list p)))]"

text \<open>
  What \<open>open\<close> and \<open>json.load\<close> make of a file: the file is missing or is not valid JSON
  (\<open>_load_json\<close> catches both and returns \<open>{}\<close>), it holds a value, or another exception
  comes up, which \<open>_load_json\<close> lets through (a directory in the file's place, a number
  beyond the digit limit, nesting too deep).
\<close>

datatype load_result = Missing | Loaded json | Raises py_error

text \<open>
  The state of one \<open>RPGMakerTools\<close> object together with what its calls see of the disk
  and of the interpreter. The record families are the ones \<open>_load_data\<close> read and the
  creation calls use. \<open>map_files n\<close> is what loading \<open>Map{n:03d}.json\<close> gives (the file
  name is one-to-one in \<open>n\<close>). \<open>write_map n v files\<close> is the disk after \<open>_save_json\<close> was
  asked to write \<open>v\<close> to that file: the write may go through, fail, or leave a broken
  file, and \<open>_save_json\<close> catches and prints every failure, which no caller looks at.
  The database files are written but never read again by the facade, so only their
  in-memory families are kept; the backup copies are not modelled.
  \<open>int_max_str_digits\<close> is the interpreter's digit limit, \<open>maxsize\<close> is \<open>sys.maxsize\<close>,
  and \<open>list_capacity\<close> is the length of the longest list of zeros the interpreter can
  allocate.
\<close>

record RPGMakerTools =
  map_infos :: json
  actors :: json
  classes :: json
  skills :: json
  enemies :: json
  common_events :: json
  map_files :: "int \<Rightarrow> load_result"
  write_map :: "int \<Rightarrow> json \<Rightarrow> (int \<Rightarrow> load_result) \<Rightarrow> (int \<Rightarrow> load_result)"
  int_max_str_digits :: nat
  maxsize :: int
  list_capacity :: int

text \<open>
  \<open>get_map\<close>: the format \<open>{map_id:03d}\<close> raises \<open>ValueError\<close> beyond the digit limit, then
  \<open>_load_json\<close> runs.
\<close>

definition get_map :: "RPGMakerTools \<Rightarrow> int \<Rightarrow> py_error + json" where
  "get_map self map_id =
     (if \<not> printable (int_max_str_digits self) map_id then Inl ValueError
      else (case map_files self map_id of
              Missing \<Rightarrow> Inr (JDict [])
            | Loaded v \<Rightarrow> Inr v
            | Raises e \<Rightarrow> Inl e))"

text \<open>\<open>self._save_json(v, f"Map{map_id:03d}.json")\<close> for a \<open>map_id\<close> within the digit limit.\<close>

definition save_map_file :: "RPGMakerTools \<Rightarrow> int \<Rightarrow> json \<Rightarrow> RPGMakerTools" where
  "save_map_file self map_id v =
     self\<lparr>map_files := write_map self map_id v (map_files self)\<rparr>"

text \<open>
  \<open>[0] * n\<close>: a negative \<open>n\<close> gives the empty list, an \<open>n\<close> above \<open>sys.maxsize\<close> raises
  \<open>OverflowError\<close>, and one the interpreter has no memory for raises \<open>MemoryError\<close>.
\<close>

definition zeros :: "RPGMakerTools \<Rightarrow> int \<Rightarrow> py_error + json list" where
  "zeros self n =
     (if 0 < n \<and> maxsize self < n then Inl OverflowError
      else if 0 < n \<and> list_capacity self < n then Inl MemoryError
      else Inr (replicate (nat n) (JInt 0)))"

text \<open>
  A creation call either raises, or returns the new id; both leave a state of the
  facade behind.
\<close>

type_synonym creation = "(py_error \<times> RPGMakerTools) + (RPGMakerTools \<times> int)"

text \<open>
  The id allocation every creation call repeats:
  \<open>ids = [r.get('id', 0) for r in family if isinstance(r, dict)]\<close> and
  \<open>next_id = max(ids) + 1 if ids else 1\<close>. \<open>max\<close> or \<open>+ 1\<close> raises \<open>TypeError\<close>
  unless every id is a number.
\<close>

fun id_of_record :: "json \<Rightarrow> json list" where
  "id_of_record (JDict d) = [dict_get d ''id'' (JInt 0)]"
| "id_of_record v = []"

definition record_ids :: "json list \<Rightarrow> json list" where
  "record_ids family = concat (map id_of_record family)"

definition next_int_id :: "int list \<Rightarrow> int" where
  "next_int_id ids = (if ids = [] then 1 else Max (set ids) + 1)"

definition next_id :: "json list \<Rightarrow> py_error + int" where
  "next_id ids =
     (if list_all (\<lambda>v. py_num v \<noteq> None) ids
      then Inr (next_int_id (map (\<lambda>v. the (py_num v)) ids))
      else Inl TypeError)"




subsection \<open>Maps and events\<close>

definition map_info_entry :: "int \<Rightarrow> string \<Rightarrow> json" where
  "map_info_entry next name =
     JDict [(''id'', JInt next), (''name'', JStr name), (''expanded'', JBool True),
            (''order'', JInt next), (''parentId'', JInt 0), (''scrollX'', JInt 0),
            (''scrollY'', JInt 0)]"

definition audio_none :: json where
  "audio_none = JDict [(''name'', JStr []), (''pan'', JInt 0), (''pitch'', JInt 100),
                       (''volume'', JInt 90)]"

definition new_map_data :: "int \<Rightarrow> int \<Rightarrow> int \<Rightarrow> json list \<Rightarrow> json" where
  "new_map_data width height tileset_id tiles =
     JDict [(''autoplayBgm'', JBool False), (''autoplayBgs'', JBool False),
            (''battleback1Name'', JStr []), (''battleback2Name'', JStr []),
            (''bgm'', audio_none), (''bgs'', audio_none),
            (''disableDashing'', JBool False), (''displayName'', JStr []),
            (''encounterList'', JList []), (''encounterStep'', JInt 30),
            (''height'', JInt height), (''note'', JStr []),
            (''parallaxLoopX'', JBool False), (''parallaxLoopY'', JBool False),
            (''parallaxName'', JStr []), (''parallaxShow'', JBool True),
            (''parallaxSx'', JInt 0), (''parallaxSy'', JInt 0), (''scrollType'', JInt 0),
            (''specifyBattleback'', JBool False), (''tilesetId'', JInt tileset_id),
            (''width'', JInt width),
            (''data'', JList tiles),
            (''events'', JDict [])]"

text \<open>
  \<open>create_map\<close>. \<open>.values()\<close> needs a dictionary (\<open>AttributeError\<close> otherwise). The new
  entry is put into \<open>self.map_infos\<close> under \<open>str(next_id)\<close> before the tile list
  \<open>[0] * (width * height * 6)\<close> is built, so a call that raises there leaves the entry
  behind.
\<close>

definition create_map :: "RPGMakerTools \<Rightarrow> string \<Rightarrow> int \<Rightarrow> int \<Rightarrow> int \<Rightarrow> creation" where
  "create_map self name width height tileset_id =
     (case map_infos self of
        JDict infos \<Rightarrow>
          (case next_id (record_ids (map snd infos)) of
             Inl e \<Rightarrow> Inl (e, self)
           | Inr next \<Rightarrow>
               (case py_str (int_max_str_digits self) next of
                  Inl e \<Rightarrow> Inl (e, self)
                | Inr k \<Rightarrow>
                    (let self' = self\<lparr>map_infos :=
                                   JDict (dict_set infos k (map_info_entry next name))\<rparr>
                     in case zeros self' (width * height * 6) of
                          Inl e \<Rightarrow> Inl (e, self')
                        | Inr tiles \<Rightarrow>
                            Inr (save_map_file self' next
                                   (new_map_data width height tileset_id tiles),
                                 next))))
      | other \<Rightarrow> Inl (AttributeError, self))"

text \<open>\<open>[int(k) for k in events.keys() if k != "null" and k is not None]\<close>.\<close>

fun event_ids :: "nat \<Rightarrow> string list \<Rightarrow> py_error + int list" where
  "event_ids limit [] = Inr []"
| "event_ids limit (k # ks) =
     (if k = ''null'' then event_ids limit ks
      else (case py_int limit k of
              None \<Rightarrow> Inl ValueError
            | Some n \<Rightarrow>
                (case event_ids limit ks of Inl e \<Rightarrow> Inl e | Inr ns \<Rightarrow> Inr (n # ns))))"

definition default_pages :: "EventPage list" where
  "default_pages =
     [default_EventPage
        \<lparr>conditions :=
           [(''actorId'', JInt 1), (''actorValid'', JBool False), (''itemId'', JInt 1),
            (''itemValid'', JBool False), (''selfSwitchCh'', JStr ''A''),
            (''selfSwitchValid'', JBool False), (''switch1Id'', JInt 1),
            (''switch1Valid'', JBool False), (''switch2Id'', JInt 1),
            (''switch2Valid'', JBool False), (''variableId'', JInt 1),
            (''variableValid'', JBool False), (''variableValue'', JInt 0)],
         image :=
           [(''characterIndex'', JInt 0), (''characterName'', JStr []),
            (''direction'', JInt 2), (''pattern'', JInt 1), (''tileId'', JInt 0)],
         page_list := [new_EventCommand 0 []]\<rparr>]"

definition event_entry :: "int \<Rightarrow> string \<Rightarrow> int \<Rightarrow> int \<Rightarrow> EventPage list \<Rightarrow> json" where
  "event_entry next name x y pages =
     JDict [(''id'', JInt next), (''name'', JStr name), (''note'', JStr []),
            (''pages'', JList (map EventPage_dict pages)), (''x'', JInt x), (''y'', JInt y)]"

text \<open>
  \<open>create_event\<close>. The caller may pass \<open>None\<close> for \<open>map_id\<close> (a location without an id),
  on which the format \<open>{map_id:03d}\<close> raises \<open>TypeError\<close>. A map file that holds a
  non-empty value other than a dictionary, or whose \<open>events\<close> entry is not a
  dictionary, raises \<open>AttributeError\<close> at \<open>.get\<close> or \<open>.keys\<close>. The event is put into
  the loaded copy of the map only, so a call that raises leaves the facade as it was.
\<close>

definition event_pages :: "EventPage list option \<Rightarrow> EventPage list" where
  "event_pages pages =
     (case pages of None \<Rightarrow> default_pages | Some ps \<Rightarrow> if ps = [] then default_pages else ps)"

definition create_event ::
  "RPGMakerTools \<Rightarrow> int option \<Rightarrow> string \<Rightarrow> int \<Rightarrow> int \<Rightarrow> EventPage list option
     \<Rightarrow> creation" where
  "create_event self map_id name x y pages =
     (case map_id of
        None \<Rightarrow> Inl (TypeError, self)
      | Some m \<Rightarrow>
          (case get_map self m of
             Inl e \<Rightarrow> Inl (e, self)
           | Inr loaded \<Rightarrow>
               if \<not> py_truthy loaded then Inl (ValueError, self)
               else
                 (case loaded of
                    JDict map_data \<Rightarrow>
                      (case dict_get map_data ''events'' (JDict []) of
                         JDict events \<Rightarrow>
                           (case event_ids (int_max_str_digits self) (map fst events) of
                              Inl e \<Rightarrow> Inl (e, self)
                            | Inr ids \<Rightarrow>
                                (case py_str (int_max_str_digits self) (next_int_id ids) of
                                   Inl e \<Rightarrow> Inl (e, self)
                                 | Inr k \<Rightarrow>
                                     Inr (save_map_file self m
                                            (JDict (dict_set map_data ''events''
                                               (JDict (dict_set events k
                                                  (event_entry (next_int_id ids) name x y
                                                     (event_pages pages)))))),
                                          next_int_id ids)))
                       | other \<Rightarrow> Inl (AttributeError, self))
                  | other \<Rightarrow> Inl (AttributeError, self))))"

subsection \<open>Actors, classes, skills, enemies, common events\<close>












subsection \<open>Event commands\<close>

definition add_message_command :: "string \<Rightarrow> string \<Rightarrow> int \<Rightarrow> EventCommand" where
  "add_message_command txt face_name face_index =
     new_EventCommand 101 [JStr face_name, JInt face_index, JInt 0, JInt 0, JStr txt]"

definition add_text_command :: "string \<Rightarrow> EventCommand" where
  "add_text_command txt = new_EventCommand 401 [JStr txt]"

definition add_choice_command :: "string list \<Rightarrow> int \<Rightarrow> EventCommand list" where
  "add_choice_command choices cancel_type =
     [new_EventCommand 102 [JList (map JStr choices), JInt cancel_type]]
     @ concat (map (\<lambda>i. [new_EventCommand 402 [JInt 0, JInt (int i)], new_EventCommand 0 []])
                   [0 ..< length choices])
     @ (if cancel_type > 0 then [new_EventCommand 403 [], new_EventCommand 0 []] else [])"

section \<open>The data model (\<open>rmmz_schemas.py\<close>)\<close>

record GameMetadata =
  title :: string
  version :: string
  creator :: string
  meta_description :: string
  resolution :: "(string \<times> int) list"

record GameLocation =
  loc_id :: "int option"
  loc_name :: string
  loc_description :: string
  width :: int
  height :: int
  tileset_id :: int
  background_music :: "py_dict option"
  encounter_list :: "json list"
  encounter_rate :: int
  features :: "string list"
  loc_notes :: string

record CutsceneData =
  cs_id :: "int option"
  cs_name :: string
  cs_description :: string
  cs_location :: json
  cs_actors :: "json list"
  cs_sequences :: "json list"

text \<open>
  The agents read and write \<open>locations\<close> and read \<open>cutscenes\<close>; the other families of the
  document are never touched by them and are kept as plain JSON.
\<close>

record GameDataSchema =
  metadata :: GameMetadata
  locations :: "GameLocation list"
  characters :: "json list"
  quests :: "json list"
  dialogues :: "json list"
  cutscenes :: "CutsceneData list"
  battles :: "json list"
  variables :: py_dict
  switches :: py_dict

record AgentTask =
  task_id :: string
  task_type :: string
  description :: string
  priority :: int
  dependencies :: "string list"
  status :: string
  assigned_to :: "string option"
  data :: py_dict
  result :: "py_dict option"

text \<open>
  Task objects are shared: the queue, a role's \<open>current_task\<close> and the local variable
  \<open>task\<close> of a worker all refer to the same object, and \<open>task.status = ...\<close> is seen
  through each of them. So tasks live in an object store (\<open>objs\<close> of \<open>world\<close> below) and the
  state holds references to them, which are positions in the store. The lists and the
  role states are not shared between fields (every pydantic instance gets its own), so
  they are plain values.
\<close>

type_synonym task_ref = nat

record AgentState =
  agent_id :: string
  agent_type :: string
  current_task :: "task_ref option"
  completed_tasks :: "string list"
  knowledge_base :: py_dict
  working_data :: py_dict

record DirectorAgentState = AgentState +
  task_queue :: "task_ref list"
  agent_assignments :: "(string \<times> string list) list"
  implementation_progress_by_agent :: "(string \<times> rat) list"

record WorldBuilderAgentState = AgentState +
  maps_created :: "int list"
  maps_in_progress :: "(int \<times> rat) list"
  location_interpretations :: py_dict

record EventEngineerAgentState = AgentState +
  events_created :: "json list"
  dialogue_created :: "json list"
  cutscenes_created :: "json list"

record CombatSystemAgentState = AgentState +
  skills_created :: "int list"
  enemies_created :: "int list"
  troops_created :: "int list"
  balance_metrics :: py_dict

record AssetManagerAgentState = AgentState +
  assets_required :: "(string \<times> string list) list"
  assets_available :: "(string \<times> string list) list"
  asset_mappings :: "(string \<times> string) list"

record TestingAgentState = AgentState +
  test_scenarios :: "json list"
  test_results :: py_dict
  issues_found :: "json list"

text \<open>
  \<open>implementation_progress\<close> is a Python float that only ever receives \<open>+= 0.1\<close>; it is
  modelled by an exact rational, so rounding is not part of the model.
\<close>

record GameImplementationState =
  game_data :: GameDataSchema
  director :: DirectorAgentState
  world_builder :: "WorldBuilderAgentState option"
  event_engineer :: "EventEngineerAgentState option"
  combat_system :: "CombatSystemAgentState option"
  asset_manager :: "AssetManagerAgentState option"
  tester :: "TestingAgentState option"
  current_stage :: string
  implementation_progress :: rat
  log :: "json list"

text \<open>
  What a \<open>process\<close> call works on: the task objects, the \<open>RPGMakerTools\<close> object that
  \<open>build_agent_workflow\<close> hands to every agent (\<open>None\<close> without a project path), and the
  workflow state.
\<close>

record world =
  objs :: "AgentTask list"
  tools :: "RPGMakerTools option"
  state :: GameImplementationState

definition new_AgentTask :: "string \<Rightarrow> string \<Rightarrow> string \<Rightarrow> int \<Rightarrow> string list \<Rightarrow> AgentTask" where
  "new_AgentTask i ty descr prio deps =
     \<lparr>task_id = i, task_type = ty, description = descr, priority = prio, dependencies = deps,
      status = ''pending'', assigned_to = None, data = [], result = None\<rparr>"

text \<open>The references a state holds point into the store.\<close>

definition refs_ok :: "world \<Rightarrow> bool" where
  "refs_ok w = list_all (\<lambda>r. r < length (objs w)) (task_queue (director (state w)))"

section \<open>The agents (\<open>rmmz_agents.py\<close>)\<close>

text \<open>
  \<open>_run_llm_chain\<close> and the \<open>json\<close> dumps before it only build a prompt and print the
  answer; nothing of the answer is read back, so they do not appear in the model.
\<close>

subsection \<open>Steps shared by the two workers\<close>

text \<open>\<open>task.status = "in_progress"; task.assigned_to = self.agent_id\<close>.\<close>

definition claim_task :: "string \<Rightarrow> task_ref \<Rightarrow> world \<Rightarrow> world" where
  "claim_task agent r w =
     objs_update (\<lambda>os. os[r := (os ! r)\<lparr>status := ''in_progress'', assigned_to := Some agent\<rparr>]) w"

text \<open>\<open>task.status = "failed"\<close>, all the \<open>except\<close> branch does besides printing.\<close>

definition fail_task :: "task_ref \<Rightarrow> world \<Rightarrow> world" where
  "fail_task r w = objs_update (\<lambda>os. os[r := (os ! r)\<lparr>status := ''failed''\<rparr>]) w"

text \<open>\<open>task.status = "completed"; task.result = {...}\<close>.\<close>

definition complete_task :: "task_ref \<Rightarrow> py_dict \<Rightarrow> world \<Rightarrow> world" where
  "complete_task r res w =
     objs_update (\<lambda>os. os[r := (os ! r)\<lparr>status := ''completed'', result := Some res\<rparr>]) w"

text \<open>
  The director's part of a success: the id joins \<open>completed_tasks\<close>, every task with
  that id leaves the queue, and \<open>implementation_progress += 0.1\<close>.
\<close>

definition record_completion :: "task_ref \<Rightarrow> world \<Rightarrow> world" where
  "record_completion r w =
     state_update
       (\<lambda>s. s\<lparr>director :=
                 (director s)
                   \<lparr>completed_tasks := completed_tasks (director s) @ [task_id (objs w ! r)],
                    task_queue :=
                      filter (\<lambda>q. task_id (objs w ! q) \<noteq> task_id (objs w ! r))
                        (task_queue (director s))\<rparr>,
               implementation_progress := implementation_progress s + 1 / 10\<rparr>) w"

text \<open>\<open>task.id.replace("create_", "").replace("_", " ")\<close>.\<close>

definition entity_name :: "AgentTask \<Rightarrow> string" where
  "entity_name t = py_replace ''_'' '' '' (py_replace ''create_'' [] (task_id t))"

subsection \<open>Director\<close>

definition world_builder_task :: AgentTask where
  "world_builder_task =
     new_AgentTask ''create_starting_town'' ''map_creation''
       ''Create the starting town map based on game design'' 1 []"

definition event_engineer_task :: AgentTask where
  "event_engineer_task =
     new_AgentTask ''create_intro_cutscene'' ''cutscene_creation''
       ''Create the intro cutscene for the game'' 2 [''create_starting_town'']"

text \<open>
  \<open>state.director\<close> is a required field, so the branch that would initialise it is never
  taken. In the planning stage two fresh task objects become the whole queue.
\<close>

definition DirectorAgent_process :: "world \<Rightarrow> world" where
  "DirectorAgent_process w =
     (if current_stage (state w) = ''planning''
      then w\<lparr>objs := objs w @ [world_builder_task, event_engineer_task],
             state := (state w)
               \<lparr>director := (director (state w))
                  \<lparr>task_queue := [length (objs w), Suc (length (objs w))]\<rparr>,
                current_stage := ''implementation''\<rparr>\<rparr>
      else w)"

subsection \<open>World builder\<close>

definition new_WorldBuilderAgentState :: WorldBuilderAgentState where
  "new_WorldBuilderAgentState =
     \<lparr>agent_id = ''world_builder'', agent_type = ''world_builder'', current_task = None,
      completed_tasks = [], knowledge_base = [], working_data = [],
      maps_created = [], maps_in_progress = [], location_interpretations = []\<rparr>"

definition wb_init :: "world \<Rightarrow> world" where
  "wb_init w =
     (case world_builder (state w) of
        None \<Rightarrow> state_update (world_builder_update (\<lambda>x. Some new_WorldBuilderAgentState)) w
      | Some a \<Rightarrow> w)"

text \<open>The first pending \<open>map_creation\<close> task of the queue; its dependencies are not read.\<close>

definition wb_find_task :: "world \<Rightarrow> task_ref option" where
  "wb_find_task w =
     find (\<lambda>r. task_type (objs w ! r) = ''map_creation'' \<and> status (objs w ! r) = ''pending'')
       (task_queue (director (state w)))"

definition wb_claim :: "task_ref \<Rightarrow> world \<Rightarrow> world" where
  "wb_claim r w =
     state_update (world_builder_update (map_option (current_task_update (\<lambda>x. Some r))))
       (claim_task ''world_builder'' r w)"

definition default_location :: "string \<Rightarrow> GameLocation" where
  "default_location name =
     \<lparr>loc_id = None, loc_name = py_title name,
      loc_description = ''A location called '' @ py_title name,
      width = 20, height = 15, tileset_id = 1, background_music = None,
      encounter_list = [], encounter_rate = 30, features = [], loc_notes = []\<rparr>"

text \<open>
  The location the task names, compared without regard to case; when there is none, a
  default one is appended to the document. The result is the local variable \<open>location\<close>
  and the world.
\<close>

definition wb_resolve_location :: "string \<Rightarrow> world \<Rightarrow> GameLocation \<times> world" where
  "wb_resolve_location name w =
     (case find (\<lambda>loc. py_lower (loc_name loc) = py_lower name)
             (locations (game_data (state w))) of
        Some loc \<Rightarrow> (loc, w)
      | None \<Rightarrow>
          (default_location name,
           state_update
             (game_data_update (locations_update (\<lambda>ls. ls @ [default_location name]))) w))"

text \<open>The loop that stores the map id in the first location of that exact name.\<close>

fun set_location_id :: "string \<Rightarrow> int \<Rightarrow> GameLocation list \<Rightarrow> GameLocation list" where
  "set_location_id name map_id [] = []"
| "set_location_id name map_id (loc # ls) =
     (if loc_name loc = name then loc\<lparr>loc_id := Some map_id\<rparr> # ls
      else loc # set_location_id name map_id ls)"

definition wb_succeed :: "task_ref \<Rightarrow> GameLocation \<Rightarrow> int \<Rightarrow> world \<Rightarrow> world" where
  "wb_succeed r location map_id w =
     record_completion r
       (state_update
          (\<lambda>s. s\<lparr>world_builder :=
                   map_option
                     (\<lambda>a. a\<lparr>maps_created := maps_created a @ [map_id],
                            current_task := None,
                            completed_tasks := completed_tasks a @ [task_id (objs w ! r)]\<rparr>)
                     (world_builder s),
                 game_data :=
                   (game_data s)
                     \<lparr>locations :=
                        set_location_id (loc_name location) map_id (locations (game_data s))\<rparr>\<rparr>)
          (complete_task r [(''map_id'', JInt map_id)] w))"

text \<open>
  \<open>if self.tools: try: ... except Exception: task.status = "failed"\<close>. Without tools the
  claimed task is left as it is. The facade is one shared object, so what a call did to
  it before it raised stays.
\<close>

definition wb_execute :: "task_ref \<Rightarrow> GameLocation \<Rightarrow> world \<Rightarrow> world" where
  "wb_execute r location w =
     (case tools w of
        None \<Rightarrow> w
      | Some t \<Rightarrow>
          (case create_map t (loc_name location) (width location) (height location)
                  (tileset_id location) of
             Inl (e, t') \<Rightarrow> fail_task r (w\<lparr>tools := Some t'\<rparr>)
           | Inr (t', map_id) \<Rightarrow> wb_succeed r location map_id (w\<lparr>tools := Some t'\<rparr>)))"

definition WorldBuilderAgent_process :: "world \<Rightarrow> world" where
  "WorldBuilderAgent_process w =
     (case wb_find_task (wb_init w) of
        None \<Rightarrow> wb_init w
      | Some r \<Rightarrow>
          (case wb_resolve_location (entity_name (objs (wb_claim r (wb_init w)) ! r))
                  (wb_claim r (wb_init w)) of
             (location, w') \<Rightarrow> wb_execute r location w'))"

text \<open>The value of the local variable \<open>location\<close> when task \<open>r\<close> is the one claimed.\<close>

definition wb_location :: "world \<Rightarrow> task_ref \<Rightarrow> GameLocation" where
  "wb_location w r =
     fst (wb_resolve_location (entity_name (objs (wb_claim r (wb_init w)) ! r))
            (wb_claim r (wb_init w)))"

subsection \<open>Event engineer\<close>

definition new_EventEngineerAgentState :: EventEngineerAgentState where
  "new_EventEngineerAgentState =
     \<lparr>agent_id = ''event_engineer'', agent_type = ''event_engineer'', current_task = None,
      completed_tasks = [], knowledge_base = [], working_data = [],
      events_created = [], dialogue_created = [], cutscenes_created = []\<rparr>"

definition ee_init :: "world \<Rightarrow> world" where
  "ee_init w =
     (case event_engineer (state w) of
        None \<Rightarrow> state_update (event_engineer_update (\<lambda>x. Some new_EventEngineerAgentState)) w
      | Some a \<Rightarrow> w)"

definition event_types :: "string list" where
  "event_types = [''event_creation'', ''cutscene_creation'', ''dialogue_creation'']"

text \<open>The inner loop over \<open>t.dependencies\<close>.\<close>

definition dependencies_met :: "string list \<Rightarrow> AgentTask \<Rightarrow> bool" where
  "dependencies_met completed t = list_all (\<lambda>dep_id. dep_id \<in> set completed) (dependencies t)"

definition ee_eligible :: "world \<Rightarrow> task_ref \<Rightarrow> bool" where
  "ee_eligible w r =
     (task_type (objs w ! r) \<in> set event_types \<and> status (objs w ! r) = ''pending''
      \<and> dependencies_met (completed_tasks (director (state w))) (objs w ! r))"

definition ee_find_task :: "world \<Rightarrow> task_ref option" where
  "ee_find_task w = find (ee_eligible w) (task_queue (director (state w)))"

definition ee_claim :: "task_ref \<Rightarrow> world \<Rightarrow> world" where
  "ee_claim r w =
     state_update (event_engineer_update (map_option (current_task_update (\<lambda>x. Some r))))
       (claim_task ''event_engineer'' r w)"

text \<open>\<open>state.game_data.locations[0].id if state.game_data.locations else 1\<close>.\<close>

definition first_location_id :: "world \<Rightarrow> int option" where
  "first_location_id w =
     (case locations (game_data (state w)) of [] \<Rightarrow> Some 1 | loc # ls \<Rightarrow> loc_id loc)"

definition json_of_id :: "int option \<Rightarrow> json" where
  "json_of_id i = (case i of None \<Rightarrow> JNull | Some n \<Rightarrow> JInt n)"

text \<open>
  \<open>event_details\<close>: for a cutscene task whose cutscene is not in the document, a default
  dictionary. It goes into the prompt only; the document's \<open>cutscenes\<close> are not written.
\<close>

definition ee_event_details :: "task_ref \<Rightarrow> world \<Rightarrow> py_dict" where
  "ee_event_details r w =
     (if task_type (objs w ! r) = ''cutscene_creation''
      then (case find (\<lambda>cs. py_lower (cs_name cs) = py_lower (entity_name (objs w ! r)))
                   (cutscenes (game_data (state w))) of
              Some cs \<Rightarrow> []
            | None \<Rightarrow>
                [(''name'', JStr (py_title (entity_name (objs w ! r)))),
                 (''description'',
                    JStr (''A cutscene for '' @ py_title (entity_name (objs w ! r)))),
                 (''location'', json_of_id (first_location_id w)),
                 (''actors'', JList []), (''sequences'', JList [])])
      else [])"

definition intro_choices :: "string list" where
  "intro_choices = [''Yes, I'' @ [CHR 0x27] @ ''m ready!'', ''Tell me more first.'']"

definition intro_commands :: "EventCommand list" where
  "intro_commands =
     [add_message_command ''Welcome to our game!'' ''Actor1'' 0,
      add_text_command ''This is the beginning of an epic adventure.'',
      add_text_command ''Are you ready to begin?'']
     @ add_choice_command intro_choices 0"

definition intro_page :: EventPage where
  "intro_page = default_EventPage\<lparr>trigger := 3, page_list := intro_commands\<rparr>"

definition ee_succeed :: "task_ref \<Rightarrow> int option \<Rightarrow> int \<Rightarrow> world \<Rightarrow> world" where
  "ee_succeed r map_id event_id w =
     record_completion r
       (state_update
          (event_engineer_update
             (map_option
                (\<lambda>a. a\<lparr>events_created :=
                         events_created a @
                           [JDict [(''id'', JInt event_id), (''map_id'', json_of_id map_id),
                                   (''name'', JStr ''Intro Cutscene''),
                                   (''type'', JStr ''cutscene'')]],
                       current_task := None,
                       completed_tasks := completed_tasks a @ [task_id (objs w ! r)]\<rparr>)))
          (complete_task r [(''event_id'', JInt event_id), (''map_id'', json_of_id map_id)] w))"

text \<open>\<open>if self.tools and task.type == "cutscene_creation": try: ... except Exception: ...\<close>.\<close>

definition ee_execute :: "task_ref \<Rightarrow> world \<Rightarrow> world" where
  "ee_execute r w =
     (case tools w of
        None \<Rightarrow> w
      | Some t \<Rightarrow>
          if task_type (objs w ! r) = ''cutscene_creation''
          then (case create_event t (first_location_id w) ''Intro Cutscene'' 5 5
                       (Some [intro_page]) of
                  Inl (e, t') \<Rightarrow> fail_task r (w\<lparr>tools := Some t'\<rparr>)
                | Inr (t', event_id) \<Rightarrow>
                    ee_succeed r (first_location_id w) event_id (w\<lparr>tools := Some t'\<rparr>))
          else w)"

definition EventEngineerAgent_process :: "world \<Rightarrow> world" where
  "EventEngineerAgent_process w =
     (case ee_find_task (ee_init w) of
        None \<Rightarrow> ee_init w
      | Some r \<Rightarrow> ee_execute r (ee_claim r (ee_init w)))"

subsection \<open>Combat system, asset manager, tester\<close>

definition new_CombatSystemAgentState :: CombatSystemAgentState where
  "new_CombatSystemAgentState =
     \<lparr>agent_id = ''combat_system'', agent_type = ''combat_system'', current_task = None,
      completed_tasks = [], knowledge_base = [], working_data = [],
      skills_created = [], enemies_created = [], troops_created = [], balance_metrics = []\<rparr>"

definition CombatSystemAgent_process :: "world \<Rightarrow> world" where
  "CombatSystemAgent_process w =
     (case combat_system (state w) of
        None \<Rightarrow> state_update (combat_system_update (\<lambda>x. Some new_CombatSystemAgentState)) w
      | Some a \<Rightarrow> w)"

definition new_AssetManagerAgentState :: AssetManagerAgentState where
  "new_AssetManagerAgentState =
     \<lparr>agent_id = ''asset_manager'', agent_type = ''asset_manager'', current_task = None,
      completed_tasks = [], knowledge_base = [], working_data = [],
      assets_required = [], assets_available = [], asset_mappings = []\<rparr>"

definition AssetManagerAgent_process :: "world \<Rightarrow> world" where
  "AssetManagerAgent_process w =
     (case asset_manager (state w) of
        None \<Rightarrow> state_update (asset_manager_update (\<lambda>x. Some new_AssetManagerAgentState)) w
      | Some a \<Rightarrow> w)"

definition new_TestingAgentState :: TestingAgentState where
  "new_TestingAgentState =
     \<lparr>agent_id = ''tester'', agent_type = ''tester'', current_task = None,
      completed_tasks = [], knowledge_base = [], working_data = [],
      test_scenarios = [], test_results = [], issues_found = []\<rparr>"

definition TestingAgent_process :: "world \<Rightarrow> world" where
  "TestingAgent_process w =
     (case tester (state w) of
        None \<Rightarrow> state_update (tester_update (\<lambda>x. Some new_TestingAgentState)) w
      | Some a \<Rightarrow> w)"

section \<open>Routing and the step loop\<close>

text \<open>
  \<open>route_implementation\<close>: the scan of the queue returns the node of the first pending
  task that settles the choice, and \<open>None\<close> when the loop runs to its end.
\<close>

definition combat_types :: "string list" where
  "combat_types = [''skill_creation'', ''enemy_creation'', ''troop_creation'']"

fun route_scan :: "AgentTask list \<Rightarrow> string list \<Rightarrow> task_ref list \<Rightarrow> string option" where
  "route_scan os completed [] = None"
| "route_scan os completed (r # rs) =
     (if status (os ! r) = ''pending''
      then (if startswith (task_type (os ! r)) ''map'' then Some ''world_builder''
            else if task_type (os ! r) \<in> set event_types
              then (if dependencies_met completed (os ! r) then Some ''event_engineer''
                    else route_scan os completed rs)
            else if task_type (os ! r) \<in> set combat_types then Some ''combat_system''
            else if task_type (os ! r) \<in> set [''asset_management'']
              then Some ''asset_manager''
            else route_scan os completed rs)
      else route_scan os completed rs)"

definition route_implementation :: "world \<Rightarrow> string" where
  "route_implementation w =
     (if current_stage (state w) = ''planning'' then ''director''
      else (case route_scan (objs w) (completed_tasks (director (state w)))
                   (task_queue (director (state w))) of
              Some node \<Rightarrow> node
            | None \<Rightarrow> if current_stage (state w) = ''testing'' then ''tester'' else ''director''))"

text \<open>The node table of \<open>build_agent_workflow\<close>.\<close>

definition node_process :: "string \<Rightarrow> world \<Rightarrow> world" where
  "node_process node w =
     (if node = ''director'' then DirectorAgent_process w
      else if node = ''world_builder'' then WorldBuilderAgent_process w
      else if node = ''event_engineer'' then EventEngineerAgent_process w
      else if node = ''combat_system'' then CombatSystemAgent_process w
      else if node = ''asset_manager'' then AssetManagerAgent_process w
      else if node = ''tester'' then TestingAgent_process w
      else w)"

text \<open>
  Modelled from the spec: the step loop. The source hands the node table, the routing
  function and the edges to an external graph library and has no driver of its own; the
  specification's engine (4.5) is: the router selects a role, that role's \<open>process\<close> runs
  once, and the run stops when the queue is empty or the step budget is used up.
  \<open>engine_trace n w\<close> lists the states of such a run with budget \<open>n\<close>, the start first.
\<close>

definition engine_step :: "world \<Rightarrow> world" where
  "engine_step w = node_process (route_implementation w) w"

fun engine_trace :: "nat \<Rightarrow> world \<Rightarrow> world list" where
  "engine_trace 0 w = [w]"
| "engine_trace (Suc n) w =
     w # (if task_queue (director (state (engine_step w))) = [] then [engine_step w]
          else engine_trace n (engine_step w))"

text \<open>
  How often a run leaves the planning stage for the implementation stage: the number of
  neighbours in the list of states with these two stages.
\<close>

fun planning_exits :: "world list \<Rightarrow> nat" where
  "planning_exits (a # b # ws) =
     (if current_stage (state a) = ''planning'' \<and> current_stage (state b) = ''implementation''
      then 1 else 0) + planning_exits (b # ws)"
| "planning_exits ws = 0"

text \<open>\<open>initialize_game_state\<close>, with no task object yet.\<close>

definition new_DirectorAgentState :: DirectorAgentState where
  "new_DirectorAgentState =
     \<lparr>agent_id = ''director'', agent_type = ''director'', current_task = None,
      completed_tasks = [], knowledge_base = [], working_data = [],
      task_queue = [], agent_assignments = [], implementation_progress_by_agent = []\<rparr>"

definition initialize_game_state :: "string \<Rightarrow> string \<Rightarrow> GameImplementationState" where
  "initialize_game_state ttl descr =
     \<lparr>game_data =
        \<lparr>metadata = \<lparr>title = ttl, version = ''1.0.0'', creator = ''RPG Maker Agents'',
                      meta_description = descr,
                      resolution = [(''width'', 816), (''height'', 624)]\<rparr>,
         locations = [], characters = [], quests = [], dialogues = [], cutscenes = [],
         battles = [], variables = [], switches = []\<rparr>,
      director = new_DirectorAgentState,
      world_builder = None, event_engineer = None, combat_system = None,
      asset_manager = None, tester = None,
      current_stage = ''planning'', implementation_progress = 0, log = []\<rparr>"

definition initial_world :: "RPGMakerTools option \<Rightarrow> string \<Rightarrow> string \<Rightarrow> world" where
  "initial_world t ttl descr =
     \<lparr>objs = [], tools = t, state = initialize_game_state ttl descr\<rparr>"

text \<open>
  The invariant behind the bound on the progress: every pending task of the queue can
  add at most 1/10, and the planning stage, which queues two tasks, starts from an empty
  queue.
\<close>

definition pending_in_queue :: "world \<Rightarrow> nat" where
  "pending_in_queue w =
     length (filter (\<lambda>r. status (objs w ! r) = ''pending'') (task_queue (director (state w))))"

definition progress_budget :: "world \<Rightarrow> bool" where
  "progress_budget w =
     (refs_ok w \<and> 0 \<le> implementation_progress (state w)
      \<and> (if current_stage (state w) = ''planning''
          then task_queue (director (state w)) = []
               \<and> implementation_progress (state w) + 2 / 10 \<le> 1
          else implementation_progress (state w) + of_nat (pending_in_queue w) / 10 \<le> 1))"

section \<open>Example states\<close>

text \<open>
  A project whose \<open>MapInfos.json\<close> is an empty dictionary, whose actor list holds the
  usual leading \<open>null\<close> and one actor, and which has no map file yet. Every write goes
  through, the digit limit is the default one, the interpreter is a 64-bit one and has
  memory for a list of a million entries.
\<close>

definition example_tools :: RPGMakerTools where
  "example_tools =
     \<lparr>map_infos = JDict [], actors = JList [JNull, JDict [(''id'', JInt 1)]],
      classes = JList [JDict [(''id'', JInt 4)], JDict [(''id'', JInt 2)]],
      skills = JList [JDict [(''id'', JInt 7)]], enemies = JList [JDict [(''name'', JStr ''Bat'')]],
      common_events = JList [JNull, JDict [(''id'', JBool True)]],
      map_files = (\<lambda>n. Missing), write_map = (\<lambda>n v files. files(n := Loaded v)),
      int_max_str_digits = 4300, maxsize = 9223372036854775807,
      list_capacity = 1000000\<rparr>"

text \<open>
  A state in the implementation stage with the given task objects, queue and completed
  ids.
\<close>

definition task_world ::
  "AgentTask list \<Rightarrow> task_ref list \<Rightarrow> string list \<Rightarrow> RPGMakerTools option \<Rightarrow> world" where
  "task_world os queue finished t =
     \<lparr>objs = os, tools = t,
      state = (initialize_game_state ''Demo'' [])
        \<lparr>director := new_DirectorAgentState\<lparr>task_queue := queue, completed_tasks := finished\<rparr>,
         current_stage := ''implementation''\<rparr>\<rparr>"

definition skill_task :: AgentTask where
  "skill_task = new_AgentTask ''create_fireball'' ''skill_creation'' ''A fire spell'' 1 []"

definition dialogue_task :: AgentTask where
  "dialogue_task =
     new_AgentTask ''create_elder_dialogue'' ''dialogue_creation'' ''The elder greets the hero'' 1 []"


text \<open>
  Scenario A of the specification: the queue holds the one task
  \<open>create_starting_town\<close>. And a state whose queue holds the cutscene task, with its
  dependency completed and a file for map 1 that has an event numbered 3.
\<close>

definition scenario_A :: world where
  "scenario_A = task_world [world_builder_task] [0] [] (Some example_tools)"

definition example_tools_with_map :: RPGMakerTools where
  "example_tools_with_map =
     example_tools\<lparr>map_files :=
       (\<lambda>n. if n = 1 then Loaded (JDict [(''events'', JDict [(''3'', JDict [])])])
            else Missing)\<rparr>"

definition scenario_cutscene :: world where
  "scenario_cutscene =
     task_world [event_engineer_task] [0] [''create_starting_town''] (Some example_tools_with_map)"

text \<open>
  Tasks whose dependency is not completed, and a project whose \<open>MapInfos.json\<close> is the
  array \<open>[null]\<close>, on which \<open>create_map\<close> raises.
\<close>

definition blocked_map_task :: AgentTask where
  "blocked_map_task =
     new_AgentTask ''create_castle'' ''map_creation'' ''The castle at the end of the road'' 1
       [''build_road'']"

definition blocked_skill_task :: AgentTask where
  "blocked_skill_task =
     new_AgentTask ''create_fireball'' ''skill_creation'' ''A fire spell'' 1 [''create_mage'']"

definition blocked_world :: world where
  "blocked_world = task_world [blocked_map_task] [0] [] (Some example_tools)"

definition array_tools :: RPGMakerTools where
  "array_tools = example_tools\<lparr>map_infos := JList [JNull]\<rparr>"

definition failing_world :: world where
  "failing_world = task_world [world_builder_task] [0] [] (Some array_tools)"




section \<open>Facts about single steps\<close>

lemma CombatSystemAgent_process_eq:
  "CombatSystemAgent_process w =
     w\<lparr>state := (state w)\<lparr>combat_system :=
        Some (case combat_system (state w) of
                None \<Rightarrow> new_CombatSystemAgentState | Some a \<Rightarrow> a)\<rparr>\<rparr>"
  by (simp add: CombatSystemAgent_process_def split: option.splits)

lemma AssetManagerAgent_process_eq:
  "AssetManagerAgent_process w =
     w\<lparr>state := (state w)\<lparr>asset_manager :=
        Some (case asset_manager (state w) of
                None \<Rightarrow> new_AssetManagerAgentState | Some a \<Rightarrow> a)\<rparr>\<rparr>"
  by (simp add: AssetManagerAgent_process_def split: option.splits)

lemma TestingAgent_process_eq:
  "TestingAgent_process w =
     w\<lparr>state := (state w)\<lparr>tester :=
        Some (case tester (state w) of None \<Rightarrow> new_TestingAgentState | Some a \<Rightarrow> a)\<rparr>\<rparr>"
  by (simp add: TestingAgent_process_def split: option.splits)

lemma objs_wb_init [simp]: "objs (wb_init w) = objs w"
  by (simp add: wb_init_def split: option.splits)

lemma objs_ee_init [simp]: "objs (ee_init w) = objs w"
  by (simp add: ee_init_def split: option.splits)

lemma director_wb_init [simp]: "director (state (wb_init w)) = director (state w)"
  by (simp add: wb_init_def split: option.splits)

lemma director_ee_init [simp]: "director (state (ee_init w)) = director (state w)"
  by (simp add: ee_init_def split: option.splits)

lemma wb_find_task_init [simp]: "wb_find_task (wb_init w) = wb_find_task w"
  by (simp add: wb_find_task_def)

lemma ee_find_task_init [simp]: "ee_find_task (ee_init w) = ee_find_task w"
proof -
  have "ee_eligible (ee_init w) = ee_eligible w"
    by (rule ext) (simp add: ee_eligible_def)
  then show ?thesis by (simp add: ee_find_task_def)
qed

lemma wb_find_task_SomeD:
  "wb_find_task w = Some r \<Longrightarrow>
     r \<in> set (task_queue (director (state w))) \<and> task_type (objs w ! r) = ''map_creation''
     \<and> status (objs w ! r) = ''pending''"
  unfolding wb_find_task_def by (auto simp: find_Some_iff)

lemma ee_find_task_SomeD:
  "ee_find_task w = Some r \<Longrightarrow> r \<in> set (task_queue (director (state w))) \<and> ee_eligible w r"
  unfolding ee_find_task_def by (auto simp: find_Some_iff)

text \<open>A worker writes to no task object but the one it claims.\<close>

lemma objs_WorldBuilder_other:
  "wb_find_task w \<noteq> Some q \<Longrightarrow> objs (WorldBuilderAgent_process w) ! q = objs w ! q"
  apply (simp add: WorldBuilderAgent_process_def split: option.splits prod.splits)
  apply (auto simp: wb_resolve_location_def wb_claim_def claim_task_def wb_execute_def
      fail_task_def wb_succeed_def record_completion_def complete_task_def
      split: option.splits sum.splits prod.splits)
  done

lemma objs_EventEngineer_other:
  "ee_find_task w \<noteq> Some q \<Longrightarrow> objs (EventEngineerAgent_process w) ! q = objs w ! q"
  apply (simp add: EventEngineerAgent_process_def split: option.splits prod.splits)
  apply (auto simp: ee_claim_def claim_task_def ee_execute_def fail_task_def ee_succeed_def
      record_completion_def complete_task_def split: option.splits sum.splits prod.splits)
  done

lemma objs_Director_old:
  "q < length (objs w) \<Longrightarrow> objs (DirectorAgent_process w) ! q = objs w ! q"
  by (simp add: DirectorAgent_process_def nth_append)

lemma node_process_keeps_object:
  assumes "q < length (objs w)" and "wb_find_task w \<noteq> Some q" and "ee_find_task w \<noteq> Some q"
  shows "objs (node_process node w) ! q = objs w ! q"
  using assms
  by (simp add: node_process_def objs_WorldBuilder_other objs_EventEngineer_other
      objs_Director_old CombatSystemAgent_process_eq AssetManagerAgent_process_eq
      TestingAgent_process_eq)

lemma length_objs_node_process: "length (objs w) \<le> length (objs (node_process node w))"
  apply (simp add: node_process_def CombatSystemAgent_process_eq AssetManagerAgent_process_eq
      TestingAgent_process_eq)
  apply (auto simp: DirectorAgent_process_def WorldBuilderAgent_process_def
      EventEngineerAgent_process_def wb_resolve_location_def wb_claim_def claim_task_def
      wb_execute_def fail_task_def wb_succeed_def record_completion_def complete_task_def
      ee_claim_def ee_execute_def ee_succeed_def split: option.splits sum.splits prod.splits)
  done

section \<open>The stub roles\<close>

text \<open>
  C10. The \<open>process\<close> of the combat system, the asset manager and the tester returns the
  world it was given, except that its own role state is created with empty defaults when
  it was absent: task objects, queue, tools, document, progress, stage and the other
  role states are the same. And no node's \<open>process\<close> writes to a pending task object of
  type \<open>skill_creation\<close>, \<open>enemy_creation\<close>, \<open>troop_creation\<close> or \<open>asset_management\<close>: such a
  task is never claimed or completed.
\<close>

theorem stub_roles_only_initialise_their_state:
  "CombatSystemAgent_process w =
     w\<lparr>state := (state w)\<lparr>combat_system :=
        Some (case combat_system (state w) of
                None \<Rightarrow> new_CombatSystemAgentState | Some a \<Rightarrow> a)\<rparr>\<rparr>
   \<and> AssetManagerAgent_process w =
     w\<lparr>state := (state w)\<lparr>asset_manager :=
        Some (case asset_manager (state w) of
                None \<Rightarrow> new_AssetManagerAgentState | Some a \<Rightarrow> a)\<rparr>\<rparr>
   \<and> TestingAgent_process w =
     w\<lparr>state := (state w)\<lparr>tester :=
        Some (case tester (state w) of None \<Rightarrow> new_TestingAgentState | Some a \<Rightarrow> a)\<rparr>\<rparr>
   \<and> (\<forall>node q. q < length (objs w) \<and> status (objs w ! q) = ''pending''
         \<and> task_type (objs w ! q) \<in> set (combat_types @ [''asset_management''])
         \<longrightarrow> objs (node_process node w) ! q = objs w ! q)"
proof -
  have "objs (node_process node w) ! q = objs w ! q"
    if "q < length (objs w)"
      and "task_type (objs w ! q) \<in> set (combat_types @ [''asset_management''])"
    for node q
  proof (rule node_process_keeps_object [OF that(1)])
    show "wb_find_task w \<noteq> Some q"
      using that(2) by (auto simp: combat_types_def dest!: wb_find_task_SomeD)
    show "ee_find_task w \<noteq> Some q"
      using that(2)
      by (auto simp: combat_types_def ee_eligible_def event_types_def dest!: ee_find_task_SomeD)
  qed
  then show ?thesis
    by (simp only: CombatSystemAgent_process_eq AssetManagerAgent_process_eq
        TestingAgent_process_eq) blast
qed

theorem stub_roles_only_initialise_their_state_witness:
  "0 < length (objs (task_world [skill_task] [0] [] None))
   \<and> status (objs (task_world [skill_task] [0] [] None) ! 0) = ''pending''
   \<and> task_type (objs (task_world [skill_task] [0] [] None) ! 0)
       \<in> set (combat_types @ [''asset_management''])
   \<and> route_implementation (task_world [skill_task] [0] [] None) = ''combat_system''
   \<and> objs (node_process ''combat_system'' (task_world [skill_task] [0] [] None)) ! 0 = skill_task
   \<and> task_queue (director (state (CombatSystemAgent_process (task_world [skill_task] [0] [] None))))
       = [0]
   \<and> combat_system (state (CombatSystemAgent_process (task_world [skill_task] [0] [] None)))
       = Some new_CombatSystemAgentState"
  using stub_roles_only_initialise_their_state [of "task_world [skill_task] [0] [] None"]
  by (simp add: task_world_def skill_task_def new_AgentTask_def combat_types_def
      route_implementation_def initialize_game_state_def new_DirectorAgentState_def
      startswith_def event_types_def)

section \<open>Stages\<close>

lemma stage_workers [simp]:
  "current_stage (state (WorldBuilderAgent_process w)) = current_stage (state w)"
  "current_stage (state (EventEngineerAgent_process w)) = current_stage (state w)"
  "current_stage (state (CombatSystemAgent_process w)) = current_stage (state w)"
  "current_stage (state (AssetManagerAgent_process w)) = current_stage (state w)"
  "current_stage (state (TestingAgent_process w)) = current_stage (state w)"
      apply (auto simp: WorldBuilderAgent_process_def wb_init_def
      wb_resolve_location_def wb_claim_def claim_task_def wb_execute_def
      fail_task_def wb_succeed_def record_completion_def complete_task_def
      split: option.splits sum.splits prod.splits)[1]
     apply (auto simp: EventEngineerAgent_process_def ee_init_def ee_claim_def claim_task_def
      ee_execute_def fail_task_def ee_succeed_def record_completion_def complete_task_def
      split: option.splits sum.splits prod.splits)[1]
    apply (simp_all add: CombatSystemAgent_process_eq AssetManagerAgent_process_eq
      TestingAgent_process_eq)
  done

lemma stage_Director:
  "current_stage (state (DirectorAgent_process w)) =
     (if current_stage (state w) = ''planning'' then ''implementation''
      else current_stage (state w))"
  by (simp add: DirectorAgent_process_def)

lemma stage_node_process:
  "current_stage (state w) \<noteq> ''planning'' \<Longrightarrow>
     current_stage (state (node_process node w)) = current_stage (state w)"
  by (simp add: node_process_def stage_Director)

lemma stage_engine_step:
  "current_stage (state w) \<noteq> ''planning'' \<Longrightarrow>
     current_stage (state (engine_step w)) = current_stage (state w)"
  by (simp add: engine_step_def stage_node_process)

lemma engine_step_planning:
  "current_stage (state w) = ''planning'' \<Longrightarrow> engine_step w = DirectorAgent_process w"
  by (simp add: engine_step_def route_implementation_def node_process_def)

lemma engine_trace_hd: "\<exists>ws. engine_trace n w = w # ws"
  by (cases n) simp_all

lemma engine_trace_stage:
  "current_stage (state w) \<noteq> ''planning'' \<Longrightarrow>
     list_all (\<lambda>w'. current_stage (state w') = current_stage (state w)) (engine_trace n w)"
proof (induction n arbitrary: w)
  case 0
  then show ?case by simp
next
  case (Suc n)
  have st: "current_stage (state (engine_step w)) = current_stage (state w)"
    using Suc.prems by (rule stage_engine_step)
  with Suc.prems have "current_stage (state (engine_step w)) \<noteq> ''planning''" by simp
  from Suc.IH [OF this] st show ?case by simp
qed

lemma planning_exits_none:
  "list_all (\<lambda>w'. current_stage (state w') \<noteq> ''planning'') ws \<Longrightarrow> planning_exits ws = 0"
  by (induction ws rule: planning_exits.induct) simp_all

text \<open>
  C7. From any state in the planning stage, whatever the queue holds, the router returns
  the director, and the step it takes is the director's, which moves the stage to
  implementation. In a run of at least one step the stage leaves planning for
  implementation exactly once, every later state of the run is in the implementation
  stage, and no node's \<open>process\<close> changes a stage other than planning (so none returns to
  planning).
\<close>

theorem planning_is_left_exactly_once:
  assumes "current_stage (state w) = ''planning''"
  shows "route_implementation w = ''director''
    \<and> engine_step w = DirectorAgent_process w
    \<and> current_stage (state (engine_step w)) = ''implementation''
    \<and> planning_exits (engine_trace (Suc n) w) = 1
    \<and> list_all (\<lambda>w'. current_stage (state w') = ''implementation'')
         (tl (engine_trace (Suc n) w))
    \<and> (\<forall>node w'. current_stage (state w') \<noteq> ''planning''
          \<longrightarrow> current_stage (state (node_process node w')) = current_stage (state w'))"
proof -
  let ?w1 = "engine_step w"
  let ?rest = "if task_queue (director (state ?w1)) = [] then [?w1] else engine_trace n ?w1"
  have r: "route_implementation w = ''director''"
    using assms by (simp add: route_implementation_def)
  have d: "engine_step w = DirectorAgent_process w"
    using assms by (rule engine_step_planning)
  have s1: "current_stage (state ?w1) = ''implementation''"
    using assms by (simp add: engine_step_planning stage_Director)
  then have np: "current_stage (state ?w1) \<noteq> ''planning''" by simp
  have all: "list_all (\<lambda>w'. current_stage (state w') = ''implementation'') ?rest"
    using engine_trace_stage [OF np, of n] s1 by simp
  then have "list_all (\<lambda>w'. current_stage (state w') \<noteq> ''planning'') ?rest"
    by (rule list.pred_mono_strong) simp
  then have z: "planning_exits ?rest = 0" by (rule planning_exits_none)
  obtain ws where rest: "?rest = ?w1 # ws"
    using engine_trace_hd [of n ?w1] by (cases "task_queue (director (state ?w1)) = []") auto
  have "planning_exits (w # ?rest) = 1"
    using z assms s1 unfolding rest by simp
  then have one: "planning_exits (engine_trace (Suc n) w) = 1" by simp
  show ?thesis
    using r d s1 one all by (simp add: stage_node_process)
qed

theorem planning_is_left_exactly_once_witness:
  "current_stage (state (initial_world None ''Demo'' [])) = ''planning''
   \<and> route_implementation (initial_world None ''Demo'' []) = ''director''
   \<and> current_stage (state (engine_step (initial_world None ''Demo'' []))) = ''implementation''
   \<and> planning_exits (engine_trace (Suc 4) (initial_world None ''Demo'' [])) = 1"
proof -
  have h: "current_stage (state (initial_world None ''Demo'' [])) = ''planning''"
    by (simp add: initial_world_def initialize_game_state_def)
  from planning_is_left_exactly_once [OF h, of 4] h show ?thesis by blast
qed

section \<open>Event and dialogue tasks\<close>

lemma node_process_keeps_claimed:
  assumes "q < length (objs w)" and "status (objs w ! q) \<noteq> ''pending''"
  shows "objs (node_process node w) ! q = objs w ! q"
proof (rule node_process_keeps_object [OF assms(1)])
  show "wb_find_task w \<noteq> Some q"
    using assms(2) by (auto dest!: wb_find_task_SomeD)
  show "ee_find_task w \<noteq> Some q"
    using assms(2) by (auto simp: ee_eligible_def dest!: ee_find_task_SomeD)
qed

lemma fold_node_process_keeps_claimed:
  "q < length (objs w) \<Longrightarrow> status (objs w ! q) \<noteq> ''pending'' \<Longrightarrow>
     q < length (objs (fold node_process nodes w))
     \<and> objs (fold node_process nodes w) ! q = objs w ! q"
proof (induction nodes arbitrary: w)
  case Nil
  then show ?case by simp
next
  case (Cons node nodes)
  have len: "q < length (objs (node_process node w))"
    using Cons.prems(1) length_objs_node_process [of w node] by simp
  have same: "objs (node_process node w) ! q = objs w ! q"
    using Cons.prems by (rule node_process_keeps_claimed)
  with Cons.prems(2) have "status (objs (node_process node w) ! q) \<noteq> ''pending''" by simp
  from Cons.IH [OF len this] same show ?case by simp
qed

lemma EventEngineer_claim_only:
  assumes "ee_find_task w = Some r" and "task_type (objs w ! r) \<noteq> ''cutscene_creation''"
    and "r < length (objs w)"
  shows "EventEngineerAgent_process w =
     w\<lparr>objs := (objs w)[r := (objs w ! r)\<lparr>status := ''in_progress'',
                                          assigned_to := Some ''event_engineer''\<rparr>],
       state := (state w)\<lparr>event_engineer :=
         Some ((case event_engineer (state w) of
                  None \<Rightarrow> new_EventEngineerAgentState
                | Some a \<Rightarrow> a)\<lparr>current_task := Some r\<rparr>)\<rparr>\<rparr>"
proof -
  have "EventEngineerAgent_process w = ee_execute r (ee_claim r (ee_init w))"
    using assms(1) by (simp add: EventEngineerAgent_process_def)
  also have "\<dots> = ee_claim r (ee_init w)"
    using assms(2,3)
    by (simp add: ee_execute_def ee_claim_def claim_task_def split: option.splits)
  also have "\<dots> = w\<lparr>objs := (objs w)[r := (objs w ! r)\<lparr>status := ''in_progress'',
                                          assigned_to := Some ''event_engineer''\<rparr>],
       state := (state w)\<lparr>event_engineer :=
         Some ((case event_engineer (state w) of
                  None \<Rightarrow> new_EventEngineerAgentState
                | Some a \<Rightarrow> a)\<lparr>current_task := Some r\<rparr>)\<rparr>\<rparr>"
    by (simp add: ee_claim_def claim_task_def ee_init_def split: option.splits)
  finally show ?thesis .
qed

text \<open>
  C9. When the first task the event engineer may take (pending, one of its three types,
  dependencies completed) is an \<open>event_creation\<close> or \<open>dialogue_creation\<close> task, its
  \<open>process\<close> only claims it: the task object gets status \<open>in_progress\<close> and
  \<open>assigned_to\<close>, the role's \<open>current_task\<close> refers to it, and everything else (queue,
  completed lists, progress, document, tools) is as before. Whatever nodes run
  afterwards, in any order, the task's status stays \<open>in_progress\<close>: it is never
  completed or failed.
\<close>

theorem event_and_dialogue_tasks_are_claimed_but_never_executed:
  assumes "ee_find_task w = Some r" and "r < length (objs w)"
    and "task_type (objs w ! r) = ''event_creation''
         \<or> task_type (objs w ! r) = ''dialogue_creation''"
  shows "EventEngineerAgent_process w =
     w\<lparr>objs := (objs w)[r := (objs w ! r)\<lparr>status := ''in_progress'',
                                          assigned_to := Some ''event_engineer''\<rparr>],
       state := (state w)\<lparr>event_engineer :=
         Some ((case event_engineer (state w) of
                  None \<Rightarrow> new_EventEngineerAgentState
                | Some a \<Rightarrow> a)\<lparr>current_task := Some r\<rparr>)\<rparr>\<rparr>
    \<and> r \<in> set (task_queue (director (state (EventEngineerAgent_process w))))
    \<and> objs (EventEngineerAgent_process w) ! r =
        (objs w ! r)\<lparr>status := ''in_progress'', assigned_to := Some ''event_engineer''\<rparr>
    \<and> completed_tasks (director (state (EventEngineerAgent_process w)))
        = completed_tasks (director (state w))
    \<and> implementation_progress (state (EventEngineerAgent_process w))
        = implementation_progress (state w)
    \<and> status (objs (fold node_process nodes (EventEngineerAgent_process w)) ! r)
        = ''in_progress''"
proof -
  let ?w' = "EventEngineerAgent_process w"
  have ty: "task_type (objs w ! r) \<noteq> ''cutscene_creation''"
    using assms(3) by auto
  note eq = EventEngineer_claim_only [OF assms(1) ty assms(2)]
  have inq: "r \<in> set (task_queue (director (state w)))"
    using assms(1) by (simp add: ee_find_task_SomeD)
  have obj: "objs ?w' ! r =
      (objs w ! r)\<lparr>status := ''in_progress'', assigned_to := Some ''event_engineer''\<rparr>"
    using assms(2) by (simp add: eq)
  have len: "r < length (objs ?w')"
    using assms(2) by (simp add: eq)
  have "status (objs ?w' ! r) \<noteq> ''pending''"
    by (simp add: obj)
  from fold_node_process_keeps_claimed [OF len this, of nodes]
  have later: "status (objs (fold node_process nodes ?w') ! r) = ''in_progress''"
    by (simp add: obj)
  have q: "r \<in> set (task_queue (director (state ?w')))"
    using inq by (simp add: eq)
  have c: "completed_tasks (director (state ?w')) = completed_tasks (director (state w))"
    by (simp add: eq)
  have p: "implementation_progress (state ?w') = implementation_progress (state w)"
    by (simp add: eq)
  show ?thesis
    using eq q obj c p later by blast
qed

theorem event_and_dialogue_tasks_are_claimed_but_never_executed_witness:
  "ee_find_task (task_world [dialogue_task] [0] [] (Some example_tools)) = Some 0
   \<and> task_type (objs (task_world [dialogue_task] [0] [] (Some example_tools)) ! 0)
       = ''dialogue_creation''
   \<and> objs (EventEngineerAgent_process (task_world [dialogue_task] [0] [] (Some example_tools))) ! 0
       = dialogue_task\<lparr>status := ''in_progress'', assigned_to := Some ''event_engineer''\<rparr>
   \<and> task_queue (director (state
        (EventEngineerAgent_process (task_world [dialogue_task] [0] [] (Some example_tools))))) = [0]
   \<and> implementation_progress (state
        (EventEngineerAgent_process (task_world [dialogue_task] [0] [] (Some example_tools)))) = 0
   \<and> status (objs (fold node_process [''event_engineer'', ''director'', ''world_builder'']
        (EventEngineerAgent_process (task_world [dialogue_task] [0] [] (Some example_tools)))) ! 0)
       = ''in_progress''"
proof -
  let ?w = "task_world [dialogue_task] [0] [] (Some example_tools)"
  have h1: "ee_find_task ?w = Some 0"
    by (simp add: ee_find_task_def ee_eligible_def task_world_def dialogue_task_def
        new_AgentTask_def event_types_def dependencies_met_def new_DirectorAgentState_def
        initialize_game_state_def)
  have h2: "0 < length (objs ?w)"
    by (simp add: task_world_def)
  have h3: "task_type (objs ?w ! 0) = ''event_creation''
            \<or> task_type (objs ?w ! 0) = ''dialogue_creation''"
    by (simp add: task_world_def dialogue_task_def new_AgentTask_def)
  note t = event_and_dialogue_tasks_are_claimed_but_never_executed
         [OF h1 h2 h3, of "[''event_engineer'', ''director'', ''world_builder'']"]
  have o: "objs ?w ! 0 = dialogue_task"
    by (simp add: task_world_def)
  have c: "completed_tasks (director (state ?w)) = []"
    and p: "implementation_progress (state ?w) = 0"
    and q: "task_queue (director (state ?w)) = [0]"
    by (simp_all add: task_world_def initialize_game_state_def new_DirectorAgentState_def)
  from t have "EventEngineerAgent_process ?w =
     ?w\<lparr>objs := (objs ?w)[0 := (objs ?w ! 0)\<lparr>status := ''in_progress'',
                                          assigned_to := Some ''event_engineer''\<rparr>],
       state := (state ?w)\<lparr>event_engineer :=
         Some ((case event_engineer (state ?w) of
                  None \<Rightarrow> new_EventEngineerAgentState
                | Some a \<Rightarrow> a)\<lparr>current_task := Some 0\<rparr>)\<rparr>\<rparr>"
    by blast
  then have q': "task_queue (director (state (EventEngineerAgent_process ?w))) = [0]"
    using q by simp
  have ty: "task_type (objs ?w ! 0) = ''dialogue_creation''"
    by (simp add: task_world_def dialogue_task_def new_AgentTask_def)
  from t have "objs (EventEngineerAgent_process ?w) ! 0 =
      (objs ?w ! 0)\<lparr>status := ''in_progress'', assigned_to := Some ''event_engineer''\<rparr>"
    by blast
  then have a: "objs (EventEngineerAgent_process ?w) ! 0 =
      dialogue_task\<lparr>status := ''in_progress'', assigned_to := Some ''event_engineer''\<rparr>"
    by (simp only: o)
  from t have "implementation_progress (state (EventEngineerAgent_process ?w))
      = implementation_progress (state ?w)"
    by blast
  then have pr: "implementation_progress (state (EventEngineerAgent_process ?w)) = 0"
    by (simp only: p)
  from t have later:
    "status (objs (fold node_process [''event_engineer'', ''director'', ''world_builder'']
        (EventEngineerAgent_process ?w)) ! 0) = ''in_progress''"
    by blast
  from h1 ty a q' pr later show ?thesis by blast
qed

section \<open>Successful execution\<close>

lemma tools_wb_resolve [simp]: "tools (snd (wb_resolve_location n w)) = tools w"
  by (simp add: wb_resolve_location_def split: option.splits)

lemma objs_wb_resolve [simp]: "objs (snd (wb_resolve_location n w)) = objs w"
  by (simp add: wb_resolve_location_def split: option.splits)

lemma director_wb_resolve [simp]:
  "director (state (snd (wb_resolve_location n w))) = director (state w)"
  by (simp add: wb_resolve_location_def split: option.splits)

lemma progress_wb_resolve [simp]:
  "implementation_progress (state (snd (wb_resolve_location n w))) = implementation_progress (state w)"
  by (simp add: wb_resolve_location_def split: option.splits)

lemma world_builder_wb_resolve [simp]:
  "world_builder (state (snd (wb_resolve_location n w))) = world_builder (state w)"
  by (simp add: wb_resolve_location_def split: option.splits)

lemma WorldBuilder_found:
  assumes "wb_find_task w = Some r"
  shows "WorldBuilderAgent_process w =
     wb_execute r (wb_location w r)
       (snd (wb_resolve_location (entity_name (objs (wb_claim r (wb_init w)) ! r))
            (wb_claim r (wb_init w))))"
  using assms by (simp add: WorldBuilderAgent_process_def wb_location_def split: prod.splits)

lemma task_id_after_update:
  "task_id ((os[r := (os ! r)\<lparr>status := s, assigned_to := a\<rparr>]) ! q) = task_id (os ! q)"
  by (cases "q = r"; cases "r < length os") (simp_all add: list_update_beyond)

lemma WorldBuilder_success:
  assumes f: "wb_find_task w = Some r" and len: "r < length (objs w)"
    and t: "tools w = Some t"
    and c: "create_map t (loc_name (wb_location w r)) (width (wb_location w r))
              (height (wb_location w r)) (tileset_id (wb_location w r)) = Inr (t', map_id)"
  shows "objs (WorldBuilderAgent_process w) =
           (objs w)[r := (objs w ! r)\<lparr>status := ''completed'',
              assigned_to := Some ''world_builder'', result := Some [(''map_id'', JInt map_id)]\<rparr>]"
    and "completed_tasks (director (state (WorldBuilderAgent_process w)))
           = completed_tasks (director (state w)) @ [task_id (objs w ! r)]"
    and "map_option completed_tasks (world_builder (state (WorldBuilderAgent_process w)))
           = Some ((case world_builder (state w) of None \<Rightarrow> [] | Some a \<Rightarrow> completed_tasks a)
                   @ [task_id (objs w ! r)])"
    and "map_option current_task (world_builder (state (WorldBuilderAgent_process w))) = Some None"
    and "task_queue (director (state (WorldBuilderAgent_process w)))
           = filter (\<lambda>q. task_id (objs w ! q) \<noteq> task_id (objs w ! r))
               (task_queue (director (state w)))"
    and "implementation_progress (state (WorldBuilderAgent_process w))
           = implementation_progress (state w) + 1 / 10"
    and "tools (WorldBuilderAgent_process w) = Some t'"
proof -
  let ?w1 = "wb_claim r (wb_init w)"
  let ?w2 = "snd (wb_resolve_location (entity_name (objs ?w1 ! r)) ?w1)"
  have t2: "tools ?w2 = Some t"
    using t by (simp add: wb_claim_def claim_task_def wb_init_def split: option.splits)
  have eq: "WorldBuilderAgent_process w = wb_succeed r (wb_location w r) map_id (?w2\<lparr>tools := Some t'\<rparr>)"
    using c t2 by (simp add: WorldBuilder_found [OF f] wb_execute_def)
  have o2: "objs ?w1 = (objs w)[r := (objs w ! r)\<lparr>status := ''in_progress'', assigned_to := Some ''world_builder''\<rparr>]"
    by (simp add: wb_claim_def claim_task_def)
  have d2: "director (state ?w1) = director (state w)"
    by (simp add: wb_claim_def claim_task_def)
  have p2: "implementation_progress (state ?w1) = implementation_progress (state w)"
    by (simp add: wb_claim_def claim_task_def wb_init_def split: option.splits)
  have b2: "world_builder (state ?w1) =
      Some ((case world_builder (state w) of None \<Rightarrow> new_WorldBuilderAgentState | Some a \<Rightarrow> a)\<lparr>current_task := Some r\<rparr>)"
    by (simp add: wb_claim_def claim_task_def wb_init_def split: option.splits)
  show "objs (WorldBuilderAgent_process w) =
           (objs w)[r := (objs w ! r)\<lparr>status := ''completed'',
              assigned_to := Some ''world_builder'', result := Some [(''map_id'', JInt map_id)]\<rparr>]"
    using len
    by (cases "objs w ! r")
       (simp add: eq wb_succeed_def record_completion_def complete_task_def o2)
  show "completed_tasks (director (state (WorldBuilderAgent_process w)))
           = completed_tasks (director (state w)) @ [task_id (objs w ! r)]"
    using len by (simp add: eq wb_succeed_def record_completion_def complete_task_def o2 d2)
  show "map_option completed_tasks (world_builder (state (WorldBuilderAgent_process w)))
           = Some ((case world_builder (state w) of None \<Rightarrow> [] | Some a \<Rightarrow> completed_tasks a)
                   @ [task_id (objs w ! r)])"
    using len by (simp add: eq wb_succeed_def record_completion_def complete_task_def o2 b2 new_WorldBuilderAgentState_def split: option.splits)
  show "map_option current_task (world_builder (state (WorldBuilderAgent_process w))) = Some None"
    by (simp add: eq wb_succeed_def record_completion_def complete_task_def b2)
  show "task_queue (director (state (WorldBuilderAgent_process w)))
           = filter (\<lambda>q. task_id (objs w ! q) \<noteq> task_id (objs w ! r))
               (task_queue (director (state w)))"
    using len
    by (simp add: eq wb_succeed_def record_completion_def complete_task_def o2 d2
        nth_list_update) (rule filter_cong, auto)
  show "implementation_progress (state (WorldBuilderAgent_process w))
           = implementation_progress (state w) + 1 / 10"
    by (simp add: eq wb_succeed_def record_completion_def complete_task_def p2)
  show "tools (WorldBuilderAgent_process w) = Some t'"
    by (simp add: eq wb_succeed_def record_completion_def complete_task_def)
qed

lemma first_location_id_claim [simp]:
  "first_location_id (ee_claim r (ee_init w)) = first_location_id w"
  by (simp add: first_location_id_def ee_claim_def claim_task_def ee_init_def split: option.splits)

lemma EventEngineer_success:
  assumes f: "ee_find_task w = Some r" and len: "r < length (objs w)"
    and ty: "task_type (objs w ! r) = ''cutscene_creation''"
    and t: "tools w = Some t"
    and c: "create_event t (first_location_id w) ''Intro Cutscene'' 5 5 (Some [intro_page])
              = Inr (t', event_id)"
  shows "objs (EventEngineerAgent_process w) =
           (objs w)[r := (objs w ! r)\<lparr>status := ''completed'',
              assigned_to := Some ''event_engineer'',
              result := Some [(''event_id'', JInt event_id),
                              (''map_id'', json_of_id (first_location_id w))]\<rparr>]"
    and "completed_tasks (director (state (EventEngineerAgent_process w)))
           = completed_tasks (director (state w)) @ [task_id (objs w ! r)]"
    and "map_option completed_tasks (event_engineer (state (EventEngineerAgent_process w)))
           = Some ((case event_engineer (state w) of None \<Rightarrow> [] | Some a \<Rightarrow> completed_tasks a)
                   @ [task_id (objs w ! r)])"
    and "map_option current_task (event_engineer (state (EventEngineerAgent_process w))) = Some None"
    and "task_queue (director (state (EventEngineerAgent_process w)))
           = filter (\<lambda>q. task_id (objs w ! q) \<noteq> task_id (objs w ! r))
               (task_queue (director (state w)))"
    and "implementation_progress (state (EventEngineerAgent_process w))
           = implementation_progress (state w) + 1 / 10"
    and "tools (EventEngineerAgent_process w) = Some t'"
proof -
  let ?w1 = "ee_claim r (ee_init w)"
  have t1: "tools ?w1 = Some t"
    using t by (simp add: ee_claim_def claim_task_def ee_init_def split: option.splits)
  have o1: "objs ?w1 = (objs w)[r := (objs w ! r)\<lparr>status := ''in_progress'',
              assigned_to := Some ''event_engineer''\<rparr>]"
    by (simp add: ee_claim_def claim_task_def)
  have ty1: "task_type (objs ?w1 ! r) = ''cutscene_creation''"
    using len ty by (simp add: o1)
  have eq: "EventEngineerAgent_process w =
      ee_succeed r (first_location_id w) event_id (?w1\<lparr>tools := Some t'\<rparr>)"
    using f c t1 ty1 by (simp add: EventEngineerAgent_process_def ee_execute_def)
  have d1: "director (state ?w1) = director (state w)"
    by (simp add: ee_claim_def claim_task_def)
  have p1: "implementation_progress (state ?w1) = implementation_progress (state w)"
    by (simp add: ee_claim_def claim_task_def ee_init_def split: option.splits)
  have b1: "event_engineer (state ?w1) =
      Some ((case event_engineer (state w) of
               None \<Rightarrow> new_EventEngineerAgentState | Some a \<Rightarrow> a)\<lparr>current_task := Some r\<rparr>)"
    by (simp add: ee_claim_def claim_task_def ee_init_def split: option.splits)
  show "objs (EventEngineerAgent_process w) =
           (objs w)[r := (objs w ! r)\<lparr>status := ''completed'',
              assigned_to := Some ''event_engineer'',
              result := Some [(''event_id'', JInt event_id),
                              (''map_id'', json_of_id (first_location_id w))]\<rparr>]"
    using len
    by (cases "objs w ! r")
       (simp add: eq ee_succeed_def record_completion_def complete_task_def o1)
  show "completed_tasks (director (state (EventEngineerAgent_process w)))
           = completed_tasks (director (state w)) @ [task_id (objs w ! r)]"
    using len by (simp add: eq ee_succeed_def record_completion_def complete_task_def o1 d1)
  show "map_option completed_tasks (event_engineer (state (EventEngineerAgent_process w)))
           = Some ((case event_engineer (state w) of None \<Rightarrow> [] | Some a \<Rightarrow> completed_tasks a)
                   @ [task_id (objs w ! r)])"
    using len
    by (simp add: eq ee_succeed_def record_completion_def complete_task_def o1 b1
        new_EventEngineerAgentState_def split: option.splits)
  show "map_option current_task (event_engineer (state (EventEngineerAgent_process w))) = Some None"
    by (simp add: eq ee_succeed_def record_completion_def complete_task_def b1)
  show "task_queue (director (state (EventEngineerAgent_process w)))
           = filter (\<lambda>q. task_id (objs w ! q) \<noteq> task_id (objs w ! r))
               (task_queue (director (state w)))"
    using len
    by (simp add: eq ee_succeed_def record_completion_def complete_task_def o1 d1
        nth_list_update) (rule filter_cong, auto)
  show "implementation_progress (state (EventEngineerAgent_process w))
           = implementation_progress (state w) + 1 / 10"
    by (simp add: eq ee_succeed_def record_completion_def complete_task_def p1)
  show "tools (EventEngineerAgent_process w) = Some t'"
    by (simp add: eq ee_succeed_def record_completion_def complete_task_def)
qed

lemma zeros_map_infos [simp]: "zeros (t\<lparr>map_infos := x\<rparr>) n = zeros t n"
  by (simp add: zeros_def)

lemma printable_one_digit: "\<bar>i\<bar> < 10 \<Longrightarrow> printable limit i"
  by (simp add: printable_def digits_ok_def)









section \<open>Dependencies\<close>

lemma EventEngineer_claims_only_unblocked:
  "ee_find_task w = Some r \<Longrightarrow>
     dependencies_met (completed_tasks (director (state w))) (objs w ! r)"
  by (auto simp: ee_eligible_def dest!: ee_find_task_SomeD)

text \<open>
  C1. The world builder takes the first pending \<open>map_creation\<close> task without reading its
  dependencies. Here the queue holds one such task that depends on \<open>build_road\<close>, and no
  task is completed: the world builder claims it (without tools it stays
  \<open>in_progress\<close>), and with tools it completes it and records it as completed.
\<close>

theorem world_builder_claims_a_blocked_task:
  "status (objs blocked_world ! 0) = ''pending''
   \<and> dependencies (objs blocked_world ! 0) = [''build_road'']
   \<and> completed_tasks (director (state blocked_world)) = []
   \<and> wb_find_task blocked_world = Some 0
   \<and> status (objs (WorldBuilderAgent_process
        (task_world [blocked_map_task] [0] [] None)) ! 0) = ''in_progress''
   \<and> status (objs (WorldBuilderAgent_process blocked_world) ! 0) = ''completed''
   \<and> completed_tasks (director (state (WorldBuilderAgent_process blocked_world)))
       = [''create_castle'']"
  by code_simp

text \<open>
  C2. The router checks the dependencies of the event engineer's task types only. For a
  pending \<open>map_creation\<close> task whose dependency is not completed it returns the world
  builder, and for such a \<open>skill_creation\<close> task the combat system; the same task with
  type \<open>cutscene_creation\<close> is passed over, and the scan ends at the director. The world
  builder is also returned for any type that begins with \<open>map\<close>, such as
  \<open>map_editing\<close>, which is not in the table.
\<close>

theorem router_ignores_dependencies_of_map_and_combat_tasks:
  "dependencies_met (completed_tasks (director (state blocked_world))) (objs blocked_world ! 0)
     = False
   \<and> route_implementation blocked_world = ''world_builder''
   \<and> route_implementation (task_world [blocked_skill_task] [0] [] None) = ''combat_system''
   \<and> route_implementation
        (task_world [blocked_map_task\<lparr>task_type := ''cutscene_creation''\<rparr>] [0] [] None)
       = ''director''
   \<and> route_implementation
        (task_world [blocked_map_task\<lparr>task_type := ''map_editing''\<rparr>] [0] [] None)
       = ''world_builder''"
  by code_simp

section \<open>Failed execution\<close>

lemma WorldBuilder_not_completed:
  assumes f: "wb_find_task w = Some r" and len: "r < length (objs w)"
    and n: "tools w = None \<or> (\<exists>t e t'. tools w = Some t
              \<and> create_map t (loc_name (wb_location w r)) (width (wb_location w r))
                   (height (wb_location w r)) (tileset_id (wb_location w r)) = Inl (e, t'))"
  shows "objs (WorldBuilderAgent_process w) =
           (objs w)[r := (objs w ! r)\<lparr>status :=
              (if tools w = None then ''in_progress'' else ''failed''),
              assigned_to := Some ''world_builder''\<rparr>]"
    and "director (state (WorldBuilderAgent_process w)) = director (state w)"
    and "implementation_progress (state (WorldBuilderAgent_process w))
           = implementation_progress (state w)"
    and "map_option current_task (world_builder (state (WorldBuilderAgent_process w)))
           = Some (Some r)"
proof -
  let ?w1 = "wb_claim r (wb_init w)"
  let ?w2 = "snd (wb_resolve_location (entity_name (objs ?w1 ! r)) ?w1)"
  have t2: "tools ?w1 = tools w"
    by (simp add: wb_claim_def claim_task_def wb_init_def split: option.splits)
  have "\<exists>x. WorldBuilderAgent_process w =
              (if tools w = None then ?w2 else fail_task r (?w2\<lparr>tools := x\<rparr>))"
    using n t2 by (auto simp: WorldBuilder_found [OF f] wb_execute_def)
  then obtain x where eq: "WorldBuilderAgent_process w =
      (if tools w = None then ?w2 else fail_task r (?w2\<lparr>tools := x\<rparr>))"
    by blast
  have o1: "objs ?w1 = (objs w)[r := (objs w ! r)\<lparr>status := ''in_progress'',
      assigned_to := Some ''world_builder''\<rparr>]"
    by (simp add: wb_claim_def claim_task_def)
  have d1: "director (state ?w1) = director (state w)"
    by (simp add: wb_claim_def claim_task_def)
  have p1: "implementation_progress (state ?w1) = implementation_progress (state w)"
    by (simp add: wb_claim_def claim_task_def wb_init_def split: option.splits)
  have b1: "map_option current_task (world_builder (state ?w1)) = Some (Some r)"
    by (simp add: wb_claim_def claim_task_def wb_init_def split: option.splits)
  show "objs (WorldBuilderAgent_process w) =
           (objs w)[r := (objs w ! r)\<lparr>status :=
              (if tools w = None then ''in_progress'' else ''failed''),
              assigned_to := Some ''world_builder''\<rparr>]"
    using len by (cases "objs w ! r") (simp add: eq fail_task_def o1)
  show "director (state (WorldBuilderAgent_process w)) = director (state w)"
    by (simp add: eq fail_task_def d1)
  show "implementation_progress (state (WorldBuilderAgent_process w))
           = implementation_progress (state w)"
    by (simp add: eq fail_task_def p1)
  show "map_option current_task (world_builder (state (WorldBuilderAgent_process w)))
           = Some (Some r)"
    using b1 by (simp add: eq fail_task_def)
qed

lemma EventEngineer_not_completed:
  assumes f: "ee_find_task w = Some r" and len: "r < length (objs w)"
    and n: "tools w = None \<or> task_type (objs w ! r) \<noteq> ''cutscene_creation''
            \<or> (\<exists>t e t'. tools w = Some t
              \<and> create_event t (first_location_id w) ''Intro Cutscene'' 5 5 (Some [intro_page])
                   = Inl (e, t'))"
  shows "objs (EventEngineerAgent_process w) =
           (objs w)[r := (objs w ! r)\<lparr>status :=
              (if tools w = None \<or> task_type (objs w ! r) \<noteq> ''cutscene_creation''
               then ''in_progress'' else ''failed''),
              assigned_to := Some ''event_engineer''\<rparr>]"
    and "director (state (EventEngineerAgent_process w)) = director (state w)"
    and "implementation_progress (state (EventEngineerAgent_process w))
           = implementation_progress (state w)"
    and "map_option current_task (event_engineer (state (EventEngineerAgent_process w)))
           = Some (Some r)"
proof -
  let ?w1 = "ee_claim r (ee_init w)"
  have t1: "tools ?w1 = tools w"
    by (simp add: ee_claim_def claim_task_def ee_init_def split: option.splits)
  have o1: "objs ?w1 = (objs w)[r := (objs w ! r)\<lparr>status := ''in_progress'',
      assigned_to := Some ''event_engineer''\<rparr>]"
    by (simp add: ee_claim_def claim_task_def)
  have ty1: "task_type (objs ?w1 ! r) = task_type (objs w ! r)"
    using len by (simp add: o1)
  have "\<exists>x. EventEngineerAgent_process w =
      (if tools w = None \<or> task_type (objs w ! r) \<noteq> ''cutscene_creation''
       then ?w1 else fail_task r (?w1\<lparr>tools := x\<rparr>))"
    using f n t1 ty1
    by (auto simp: EventEngineerAgent_process_def ee_execute_def split: option.splits)
  then obtain x where eq: "EventEngineerAgent_process w =
      (if tools w = None \<or> task_type (objs w ! r) \<noteq> ''cutscene_creation''
       then ?w1 else fail_task r (?w1\<lparr>tools := x\<rparr>))"
    by blast
  have d1: "director (state ?w1) = director (state w)"
    by (simp add: ee_claim_def claim_task_def)
  have p1: "implementation_progress (state ?w1) = implementation_progress (state w)"
    by (simp add: ee_claim_def claim_task_def ee_init_def split: option.splits)
  have b1: "map_option current_task (event_engineer (state ?w1)) = Some (Some r)"
    by (simp add: ee_claim_def claim_task_def ee_init_def split: option.splits)
  show "objs (EventEngineerAgent_process w) =
           (objs w)[r := (objs w ! r)\<lparr>status :=
              (if tools w = None \<or> task_type (objs w ! r) \<noteq> ''cutscene_creation''
               then ''in_progress'' else ''failed''),
              assigned_to := Some ''event_engineer''\<rparr>]"
    using len by (cases "objs w ! r") (simp add: eq fail_task_def o1)
  show "director (state (EventEngineerAgent_process w)) = director (state w)"
    by (simp add: eq fail_task_def d1)
  show "implementation_progress (state (EventEngineerAgent_process w))
           = implementation_progress (state w)"
    by (simp add: eq fail_task_def p1)
  show "map_option current_task (event_engineer (state (EventEngineerAgent_process w)))
           = Some (Some r)"
    using b1 by (simp add: eq fail_task_def)
qed

text \<open>
  C4. When the creation call of a claimed task raises, the worker returns normally; the
  task object has status \<open>failed\<close>, the queue and the progress are as before (so the
  task is still queued), and the role's \<open>current_task\<close> still refers to the failed task:
  the \<open>except\<close> branch does not clear it as the success branch does. This is so for the
  world builder and for the event engineer's cutscene tasks.
\<close>

theorem failed_creation_keeps_current_task:
  "(wb_find_task w = Some r \<and> r < length (objs w) \<and> tools w = Some t
    \<and> create_map t (loc_name (wb_location w r)) (width (wb_location w r))
          (height (wb_location w r)) (tileset_id (wb_location w r)) = Inl (e, t')
    \<longrightarrow> status (objs (WorldBuilderAgent_process w) ! r) = ''failed''
      \<and> task_queue (director (state (WorldBuilderAgent_process w)))
          = task_queue (director (state w))
      \<and> implementation_progress (state (WorldBuilderAgent_process w))
          = implementation_progress (state w)
      \<and> map_option current_task (world_builder (state (WorldBuilderAgent_process w)))
          = Some (Some r))
   \<and> (ee_find_task v = Some q \<and> q < length (objs v)
       \<and> task_type (objs v ! q) = ''cutscene_creation'' \<and> tools v = Some u
       \<and> create_event u (first_location_id v) ''Intro Cutscene'' 5 5 (Some [intro_page])
            = Inl (e', u')
    \<longrightarrow> status (objs (EventEngineerAgent_process v) ! q) = ''failed''
      \<and> task_queue (director (state (EventEngineerAgent_process v)))
          = task_queue (director (state v))
      \<and> implementation_progress (state (EventEngineerAgent_process v))
          = implementation_progress (state v)
      \<and> map_option current_task (event_engineer (state (EventEngineerAgent_process v)))
          = Some (Some q))"
proof (intro conjI impI)
  assume a: "wb_find_task w = Some r \<and> r < length (objs w) \<and> tools w = Some t
    \<and> create_map t (loc_name (wb_location w r)) (width (wb_location w r))
          (height (wb_location w r)) (tileset_id (wb_location w r)) = Inl (e, t')"
  then have n: "tools w = None \<or> (\<exists>t e t'. tools w = Some t
              \<and> create_map t (loc_name (wb_location w r)) (width (wb_location w r))
                   (height (wb_location w r)) (tileset_id (wb_location w r)) = Inl (e, t'))"
    by blast
  note s = WorldBuilder_not_completed [OF conjunct1 [OF a] conjunct1 [OF conjunct2 [OF a]] n]
  show "status (objs (WorldBuilderAgent_process w) ! r) = ''failed''"
    using a by (simp add: s(1))
  show "task_queue (director (state (WorldBuilderAgent_process w)))
          = task_queue (director (state w))"
    by (simp add: s(2))
  show "implementation_progress (state (WorldBuilderAgent_process w))
          = implementation_progress (state w)"
    by (rule s(3))
  show "map_option current_task (world_builder (state (WorldBuilderAgent_process w)))
          = Some (Some r)"
    by (rule s(4))
next
  assume a: "ee_find_task v = Some q \<and> q < length (objs v)
       \<and> task_type (objs v ! q) = ''cutscene_creation'' \<and> tools v = Some u
       \<and> create_event u (first_location_id v) ''Intro Cutscene'' 5 5 (Some [intro_page])
            = Inl (e', u')"
  then have n: "tools v = None \<or> task_type (objs v ! q) \<noteq> ''cutscene_creation''
            \<or> (\<exists>t e t'. tools v = Some t
              \<and> create_event t (first_location_id v) ''Intro Cutscene'' 5 5 (Some [intro_page])
                   = Inl (e, t'))"
    by blast
  note s = EventEngineer_not_completed [OF conjunct1 [OF a] conjunct1 [OF conjunct2 [OF a]] n]
  show "status (objs (EventEngineerAgent_process v) ! q) = ''failed''"
    using a by (simp add: s(1))
  show "task_queue (director (state (EventEngineerAgent_process v)))
          = task_queue (director (state v))"
    by (simp add: s(2))
  show "implementation_progress (state (EventEngineerAgent_process v))
          = implementation_progress (state v)"
    by (rule s(3))
  show "map_option current_task (event_engineer (state (EventEngineerAgent_process v)))
          = Some (Some q)"
    by (rule s(4))
qed

theorem failed_creation_keeps_current_task_witness:
  "create_map array_tools ''Starting Town'' 20 15 1 = Inl (AttributeError, array_tools)
   \<and> wb_find_task failing_world = Some 0
   \<and> tools failing_world = Some array_tools
   \<and> status (objs (WorldBuilderAgent_process failing_world) ! 0) = ''failed''
   \<and> task_queue (director (state (WorldBuilderAgent_process failing_world))) = [0]
   \<and> implementation_progress (state (WorldBuilderAgent_process failing_world)) = 0
   \<and> map_option current_task (world_builder (state (WorldBuilderAgent_process failing_world)))
       = Some (Some 0)
   \<and> ee_find_task (task_world [event_engineer_task] [0] [''create_starting_town'']
         (Some example_tools)) = Some 0
   \<and> create_event example_tools (Some 1) ''Intro Cutscene'' 5 5 (Some [intro_page])
       = Inl (ValueError, example_tools)
   \<and> map_option current_task (event_engineer (state (EventEngineerAgent_process
         (task_world [event_engineer_task] [0] [''create_starting_town'']
            (Some example_tools))))) = Some (Some 0)"
proof -
  let ?L = "wb_location failing_world 0"
  let ?v = "task_world [event_engineer_task] [0] [''create_starting_town''] (Some example_tools)"
  have cm: "create_map array_tools n wd h ts = Inl (AttributeError, array_tools)" for n wd h ts
    by (simp add: create_map_def array_tools_def)
  have a: "wb_find_task failing_world = Some 0" "0 < length (objs failing_world)"
    "tools failing_world = Some array_tools"
    "task_queue (director (state failing_world)) = [0]"
    "implementation_progress (state failing_world) = 0"
    by (simp_all add: failing_world_def task_world_def wb_find_task_def world_builder_task_def
        new_AgentTask_def initialize_game_state_def new_DirectorAgentState_def)
  have b: "ee_find_task ?v = Some 0" "0 < length (objs ?v)"
    "task_type (objs ?v ! 0) = ''cutscene_creation''" "tools ?v = Some example_tools"
    "first_location_id ?v = Some 1"
    by (simp_all add: task_world_def ee_find_task_def ee_eligible_def
        event_types_def dependencies_met_def event_engineer_task_def
        new_AgentTask_def initialize_game_state_def new_DirectorAgentState_def
        first_location_id_def)
  have ce: "create_event example_tools (Some 1) ''Intro Cutscene'' 5 5 (Some [intro_page])
       = Inl (ValueError, example_tools)"
    by (simp add: create_event_def get_map_def example_tools_def printable_one_digit)
  note T = failed_creation_keeps_current_task
    [of failing_world 0 array_tools AttributeError array_tools ?v 0 example_tools ValueError
        example_tools]
  from T a(1,2,3) cm [of "loc_name ?L" "width ?L" "height ?L" "tileset_id ?L"]
  have "status (objs (WorldBuilderAgent_process failing_world) ! 0) = ''failed''"
    and "task_queue (director (state (WorldBuilderAgent_process failing_world)))
          = task_queue (director (state failing_world))"
    and "implementation_progress (state (WorldBuilderAgent_process failing_world))
          = implementation_progress (state failing_world)"
    and w4: "map_option current_task
          (world_builder (state (WorldBuilderAgent_process failing_world))) = Some (Some 0)"
    by blast+
  then have w1: "status (objs (WorldBuilderAgent_process failing_world) ! 0) = ''failed''"
    and w2: "task_queue (director (state (WorldBuilderAgent_process failing_world))) = [0]"
    and w3: "implementation_progress (state (WorldBuilderAgent_process failing_world)) = 0"
    by (simp_all only: a(4,5))
  from T b(1,2,3,4) ce
  have e4: "map_option current_task (event_engineer (state (EventEngineerAgent_process ?v)))
      = Some (Some 0)"
    unfolding b(5) by blast
  from cm a(1,3) w1 w2 w3 w4 b(1) ce e4 show ?thesis by blast
qed

section \<open>Missing entities\<close>

lemma game_data_EventEngineer:
  "game_data (state (EventEngineerAgent_process w)) = game_data (state w)"
  by (auto simp: EventEngineerAgent_process_def ee_init_def claim_task_def
      ee_claim_def ee_execute_def ee_succeed_def fail_task_def record_completion_def
      complete_task_def split: option.splits sum.splits prod.splits)

text \<open>
  C5. The event engineer never writes to the document. For the cutscene task of
  \<open>scenario_cutscene\<close>, whose cutscene is not in the document, it builds the default
  dictionary for the prompt and completes the task, and the document's \<open>cutscenes\<close> are
  still empty afterwards. The world builder, in Scenario A, does append its default
  location (and stores the new map's id in it).
\<close>

theorem event_engineer_never_attaches_a_cutscene:
  "game_data (state (EventEngineerAgent_process w)) = game_data (state w)
   \<and> ee_find_task scenario_cutscene = Some 0
   \<and> cutscenes (game_data (state scenario_cutscene)) = []
   \<and> ee_event_details 0 (ee_claim 0 (ee_init scenario_cutscene)) =
        [(''name'', JStr ''Intro Cutscene''),
         (''description'', JStr ''A cutscene for Intro Cutscene''),
         (''location'', JInt 1), (''actors'', JList []), (''sequences'', JList [])]
   \<and> status (objs (EventEngineerAgent_process scenario_cutscene) ! 0) = ''completed''
   \<and> cutscenes (game_data (state (EventEngineerAgent_process scenario_cutscene))) = []
   \<and> locations (game_data (state scenario_A)) = []
   \<and> locations (game_data (state (WorldBuilderAgent_process scenario_A)))
       = [(default_location ''starting town'')\<lparr>loc_id := Some 1\<rparr>]"
proof -
  have "ee_find_task scenario_cutscene = Some 0
   \<and> cutscenes (game_data (state scenario_cutscene)) = []
   \<and> ee_event_details 0 (ee_claim 0 (ee_init scenario_cutscene)) =
        [(''name'', JStr ''Intro Cutscene''),
         (''description'', JStr ''A cutscene for Intro Cutscene''),
         (''location'', JInt 1), (''actors'', JList []), (''sequences'', JList [])]
   \<and> status (objs (EventEngineerAgent_process scenario_cutscene) ! 0) = ''completed''
   \<and> cutscenes (game_data (state (EventEngineerAgent_process scenario_cutscene))) = []
   \<and> locations (game_data (state scenario_A)) = []
   \<and> locations (game_data (state (WorldBuilderAgent_process scenario_A)))
       = [(default_location ''starting town'')\<lparr>loc_id := Some 1\<rparr>]"
    by code_simp
  then show ?thesis by (simp add: game_data_EventEngineer)
qed

section \<open>Progress\<close>

lemma pending_after_write:
  assumes "r < length os" and "status (os ! r) = ''pending''" and "status t' \<noteq> ''pending''"
  shows "length (filter (\<lambda>x. status (os[r := t'] ! x) = ''pending'') q) + count_list q r
         = length (filter (\<lambda>x. status (os ! x) = ''pending'') q)"
  using assms by (induction q) (auto simp: nth_list_update)

lemma pending_after_write_le:
  assumes "r \<in> set q" and "r < length os" and "status (os ! r) = ''pending''"
    and "status t' \<noteq> ''pending''"
  shows "Suc (length (filter (\<lambda>x. status (os[r := t'] ! x) = ''pending'') q))
         \<le> length (filter (\<lambda>x. status (os ! x) = ''pending'') q)"
proof -
  have "0 < count_list q r"
    using assms(1) by (metis count_list_0_iff gr0I)
  with pending_after_write [OF assms(2,3,4), of q] show ?thesis by simp
qed

lemma length_filter_conj_le:
  "length (filter (\<lambda>x. Q x \<and> P x) xs) \<le> length (filter P xs)"
  by (induction xs) auto

lemma progress_wb_init [simp]:
  "implementation_progress (state (wb_init w)) = implementation_progress (state w)"
  by (simp add: wb_init_def split: option.splits)

lemma progress_ee_init [simp]:
  "implementation_progress (state (ee_init w)) = implementation_progress (state w)"
  by (simp add: ee_init_def split: option.splits)

lemma create_map_cases:
  "(\<exists>e t'. create_map t n wd h ts = Inl (e, t'))
   \<or> (\<exists>t' i. create_map t n wd h ts = Inr (t', i))"
  by (cases "create_map t n wd h ts") auto

lemma create_event_cases:
  "(\<exists>e t'. create_event t m n x y ps = Inl (e, t'))
   \<or> (\<exists>t' i. create_event t m n x y ps = Inr (t', i))"
  by (cases "create_event t m n x y ps") auto

lemma budget_step:
  assumes b: "progress_budget w"
    and r: "r \<in> set (task_queue (director (state w)))"
    and p: "status (objs w ! r) = ''pending''"
    and st: "current_stage (state w') = current_stage (state w)"
    and o: "objs w' = (objs w)[r := t']" and nt: "status t' \<noteq> ''pending''"
    and q: "set (task_queue (director (state w'))) \<subseteq> set (task_queue (director (state w)))"
    and ql: "length (filter (\<lambda>x. status (objs w' ! x) = ''pending'') (task_queue (director (state w'))))
             \<le> length (filter (\<lambda>x. status (objs w' ! x) = ''pending'') (task_queue (director (state w))))"
    and pr: "implementation_progress (state w') = implementation_progress (state w)
             \<or> implementation_progress (state w') = implementation_progress (state w) + 1 / 10"
  shows "progress_budget w'"
proof -
  have ro: "refs_ok w" using b by (simp add: progress_budget_def)
  then have len: "r < length (objs w)"
    using r by (simp add: refs_ok_def list_all_iff)
  have np: "current_stage (state w) \<noteq> ''planning''"
    using b r by (auto simp: progress_budget_def)
  have le: "Suc (pending_in_queue w') \<le> pending_in_queue w"
    using pending_after_write_le [OF r len p nt] ql
    by (simp add: pending_in_queue_def o)
  have "refs_ok w'"
    using ro q by (auto simp: refs_ok_def list_all_iff o)
  moreover have "0 \<le> implementation_progress (state w')"
    using b pr by (auto simp: progress_budget_def)
  moreover have "implementation_progress (state w') + of_nat (pending_in_queue w') / 10 \<le> 1"
  proof -
    have "implementation_progress (state w') + of_nat (pending_in_queue w') / 10
          \<le> implementation_progress (state w) + 1 / 10 + of_nat (pending_in_queue w') / 10"
      using pr by auto
    also have "\<dots> = implementation_progress (state w) + of_nat (Suc (pending_in_queue w')) / 10"
      by (simp add: field_simps)
    also have "\<dots> \<le> implementation_progress (state w) + of_nat (pending_in_queue w) / 10"
      using le by (simp add: divide_right_mono del: of_nat_Suc)
    also have "\<dots> \<le> 1"
      using b np by (simp add: progress_budget_def)
    finally show ?thesis .
  qed
  ultimately show ?thesis
    using np st by (simp add: progress_budget_def)
qed

lemma budget_WorldBuilder:
  assumes b: "progress_budget w"
  shows "progress_budget (WorldBuilderAgent_process w)"
proof (cases "wb_find_task w")
  case None
  then have "WorldBuilderAgent_process w = wb_init w"
    by (simp add: WorldBuilderAgent_process_def)
  moreover have "current_stage (state (wb_init w)) = current_stage (state w)"
    by (simp add: wb_init_def split: option.splits)
  ultimately show ?thesis
    using b by (auto simp: progress_budget_def refs_ok_def pending_in_queue_def)
next
  case (Some r)
  note f = Some
  note d = wb_find_task_SomeD [OF f]
  have len: "r < length (objs w)"
    using b d by (simp add: progress_budget_def refs_ok_def list_all_iff)
  let ?L = "wb_location w r"
  have "(tools w = None \<or> (\<exists>t e t'. tools w = Some t
              \<and> create_map t (loc_name ?L) (width ?L) (height ?L) (tileset_id ?L) = Inl (e, t')))
        \<or> (\<exists>t t' i. tools w = Some t
              \<and> create_map t (loc_name ?L) (width ?L) (height ?L) (tileset_id ?L) = Inr (t', i))"
  proof (cases "tools w")
    case None
    then show ?thesis by simp
  next
    case (Some t)
    with create_map_cases [of t "loc_name ?L" "width ?L" "height ?L" "tileset_id ?L"]
    show ?thesis by blast
  qed
  then consider (idle) "tools w = None \<or> (\<exists>t e t'. tools w = Some t
              \<and> create_map t (loc_name ?L) (width ?L) (height ?L) (tileset_id ?L) = Inl (e, t'))"
    | (finished) t t' i where "tools w = Some t"
        "create_map t (loc_name ?L) (width ?L) (height ?L) (tileset_id ?L) = Inr (t', i)"
    by blast
  then show ?thesis
  proof cases
    case idle
    note n = WorldBuilder_not_completed [OF f len idle]
    show ?thesis
      by (rule budget_step [OF b conjunct1 [OF d] conjunct2 [OF conjunct2 [OF d]] _ n(1)])
         (simp_all add: n)
  next
    case finished
    note s = WorldBuilder_success [OF f len finished]
    show ?thesis
      by (rule budget_step [OF b conjunct1 [OF d] conjunct2 [OF conjunct2 [OF d]] _ s(1)])
         (simp_all add: s length_filter_conj_le)
  qed
qed

lemma budget_EventEngineer:
  assumes b: "progress_budget w"
  shows "progress_budget (EventEngineerAgent_process w)"
proof (cases "ee_find_task w")
  case None
  then have "EventEngineerAgent_process w = ee_init w"
    by (simp add: EventEngineerAgent_process_def)
  moreover have "current_stage (state (ee_init w)) = current_stage (state w)"
    by (simp add: ee_init_def split: option.splits)
  ultimately show ?thesis
    using b by (auto simp: progress_budget_def refs_ok_def pending_in_queue_def)
next
  case (Some r)
  note f = Some
  note d = ee_find_task_SomeD [OF f]
  then have pend: "status (objs w ! r) = ''pending''"
    by (simp add: ee_eligible_def)
  have len: "r < length (objs w)"
    using b d by (simp add: progress_budget_def refs_ok_def list_all_iff)
  let ?c = "\<lambda>t. create_event t (first_location_id w) ''Intro Cutscene'' 5 5 (Some [intro_page])"
  have "(tools w = None \<or> task_type (objs w ! r) \<noteq> ''cutscene_creation''
         \<or> (\<exists>t e t'. tools w = Some t \<and> ?c t = Inl (e, t')))
        \<or> (task_type (objs w ! r) = ''cutscene_creation''
            \<and> (\<exists>t t' i. tools w = Some t \<and> ?c t = Inr (t', i)))"
  proof (cases "tools w")
    case None
    then show ?thesis by simp
  next
    case (Some t)
    with create_event_cases [of t "first_location_id w" "''Intro Cutscene''" 5 5 "Some [intro_page]"]
    show ?thesis by blast
  qed
  then consider (idle) "tools w = None \<or> task_type (objs w ! r) \<noteq> ''cutscene_creation''
         \<or> (\<exists>t e t'. tools w = Some t \<and> ?c t = Inl (e, t'))"
    | (finished) t t' i where "task_type (objs w ! r) = ''cutscene_creation''"
        "tools w = Some t" "?c t = Inr (t', i)"
    by blast
  then show ?thesis
  proof cases
    case idle
    note n = EventEngineer_not_completed [OF f len idle]
    show ?thesis
      by (rule budget_step [OF b conjunct1 [OF d] pend _ n(1)]) (simp_all add: n)
  next
    case finished
    note s = EventEngineer_success [OF f len finished]
    show ?thesis
      by (rule budget_step [OF b conjunct1 [OF d] pend _ s(1)])
         (simp_all add: s length_filter_conj_le)
  qed
qed

lemma budget_Director:
  assumes b: "progress_budget w"
  shows "progress_budget (DirectorAgent_process w)"
proof (cases "current_stage (state w) = ''planning''")
  case True
  then show ?thesis
    using b
    by (simp add: progress_budget_def DirectorAgent_process_def refs_ok_def pending_in_queue_def
        nth_append world_builder_task_def event_engineer_task_def new_AgentTask_def)
next
  case False
  then show ?thesis using b by (simp add: DirectorAgent_process_def)
qed

lemma budget_cong:
  assumes "objs w' = objs w" and "director (state w') = director (state w)"
    and "current_stage (state w') = current_stage (state w)"
    and "implementation_progress (state w') = implementation_progress (state w)"
  shows "progress_budget w' = progress_budget w"
  using assms by (simp add: progress_budget_def refs_ok_def pending_in_queue_def)

lemma budget_stubs:
  "progress_budget (CombatSystemAgent_process w) = progress_budget w"
  "progress_budget (AssetManagerAgent_process w) = progress_budget w"
  "progress_budget (TestingAgent_process w) = progress_budget w"
  by (rule budget_cong; simp add: CombatSystemAgent_process_eq AssetManagerAgent_process_eq
      TestingAgent_process_eq)+

lemma budget_node_process:
  "progress_budget w \<Longrightarrow> progress_budget (node_process node w)"
  by (simp add: node_process_def budget_WorldBuilder budget_EventEngineer budget_Director
      budget_stubs)

lemma progress_WorldBuilder:
  "implementation_progress (state (WorldBuilderAgent_process w))
     = implementation_progress (state w)
   \<or> implementation_progress (state (WorldBuilderAgent_process w))
     = implementation_progress (state w) + 1 / 10"
  by (auto simp: WorldBuilderAgent_process_def wb_init_def
      wb_resolve_location_def wb_claim_def claim_task_def
      wb_execute_def fail_task_def wb_succeed_def record_completion_def complete_task_def
      split: option.splits sum.splits prod.splits)

lemma progress_EventEngineer:
  "implementation_progress (state (EventEngineerAgent_process w))
     = implementation_progress (state w)
   \<or> implementation_progress (state (EventEngineerAgent_process w))
     = implementation_progress (state w) + 1 / 10"
  by (auto simp: EventEngineerAgent_process_def ee_init_def claim_task_def
      ee_claim_def ee_execute_def ee_succeed_def fail_task_def record_completion_def
      complete_task_def split: option.splits sum.splits prod.splits)

lemma progress_node_process:
  "implementation_progress (state (node_process node w)) = implementation_progress (state w)
   \<or> implementation_progress (state (node_process node w))
       = implementation_progress (state w) + 1 / 10"
  using progress_WorldBuilder [of w] progress_EventEngineer [of w]
  by (simp add: node_process_def CombatSystemAgent_process_eq AssetManagerAgent_process_eq
      TestingAgent_process_eq DirectorAgent_process_def)

lemma budget_initial: "progress_budget (initial_world t ttl descr)"
  by (simp add: progress_budget_def initial_world_def initialize_game_state_def refs_ok_def
      new_DirectorAgentState_def)

lemma budget_bounds:
  "progress_budget w \<Longrightarrow>
     0 \<le> implementation_progress (state w) \<and> implementation_progress (state w) \<le> 1"
proof -
  assume b: "progress_budget w"
  have "0 \<le> rat_of_nat (pending_in_queue w) / 10" by simp
  with b show ?thesis
    by (auto simp: progress_budget_def split: if_splits)
qed

lemma budget_engine_step: "progress_budget w \<Longrightarrow> progress_budget (engine_step w)"
  by (simp add: engine_step_def budget_node_process)

lemma budget_fold:
  "progress_budget w \<Longrightarrow> progress_budget (fold node_process nodes w)"
  by (induction nodes arbitrary: w) (simp_all add: budget_node_process)

lemma budget_trace:
  "progress_budget w \<Longrightarrow> list_all progress_budget (engine_trace n w)"
  by (induction n arbitrary: w) (simp_all add: budget_engine_step)

lemma progress_engine_step_le:
  "implementation_progress (state w) \<le> implementation_progress (state (engine_step w))"
  using progress_node_process [of "route_implementation w" w]
  by (auto simp: engine_step_def)

lemma trace_ge:
  "w' \<in> set (engine_trace n w) \<Longrightarrow>
     implementation_progress (state w) \<le> implementation_progress (state w')"
proof (induction n arbitrary: w)
  case 0
  then show ?case by simp
next
  case (Suc n)
  have "implementation_progress (state w) \<le> implementation_progress (state w')"
    if "w' \<in> set (engine_trace n (engine_step w))"
    using Suc.IH [OF that] progress_engine_step_le [of w] by simp
  with Suc.prems progress_engine_step_le [of w] show ?case
    by (auto split: if_splits)
qed

lemma trace_sorted:
  "sorted (map (\<lambda>w. implementation_progress (state w)) (engine_trace n w))"
proof (induction n arbitrary: w)
  case 0
  then show ?case by simp
next
  case (Suc n)
  have "implementation_progress (state w) \<le> implementation_progress (state w')"
    if "w' \<in> set (engine_trace n (engine_step w))" for w'
    using trace_ge [OF that] progress_engine_step_le [of w] by simp
  with Suc.IH [of "engine_step w"] progress_engine_step_le [of w] show ?case
    by auto
qed

lemma budget_step_clamped:
  assumes "progress_budget w"
  shows "implementation_progress (state (engine_step w)) = implementation_progress (state w)
     \<or> implementation_progress (state (engine_step w))
         = min 1 (implementation_progress (state w) + 1 / 10)"
proof -
  have "implementation_progress (state (engine_step w)) \<le> 1"
    using budget_bounds [OF budget_engine_step [OF assms]] by simp
  with progress_node_process [of "route_implementation w" w] show ?thesis
    by (auto simp: engine_step_def min_def)
qed

text \<open>
  C3. In every run of the step loop from the initial state, with or without tools and
  with any step budget, the progress never decreases from one state to the next, lies
  between 0 and 1 in every state, and each step either leaves it as it is or adds 1/10
  (which on these states is the same as adding 1/10 and clamping at 1). The same bounds
  hold when the nodes run in any order at all from the initial state.
\<close>

theorem progress_is_monotone_and_bounded:
  "sorted (map (\<lambda>w. implementation_progress (state w))
             (engine_trace n (initial_world t ttl descr)))
   \<and> list_all (\<lambda>w. 0 \<le> implementation_progress (state w)
                    \<and> implementation_progress (state w) \<le> 1)
        (engine_trace n (initial_world t ttl descr))
   \<and> list_all (\<lambda>w. implementation_progress (state (engine_step w))
                      = implementation_progress (state w)
                    \<or> implementation_progress (state (engine_step w))
                      = min 1 (implementation_progress (state w) + 1 / 10))
        (engine_trace n (initial_world t ttl descr))
   \<and> implementation_progress (state (fold node_process nodes (initial_world t ttl descr)))
       \<le> implementation_progress
            (state (node_process node (fold node_process nodes (initial_world t ttl descr))))
   \<and> implementation_progress
        (state (node_process node (fold node_process nodes (initial_world t ttl descr)))) \<le> 1"
proof -
  let ?i = "initial_world t ttl descr"
  have tr: "list_all progress_budget (engine_trace n ?i)"
    by (rule budget_trace [OF budget_initial])
  have b: "list_all (\<lambda>w. 0 \<le> implementation_progress (state w)
                    \<and> implementation_progress (state w) \<le> 1) (engine_trace n ?i)"
    by (rule list.pred_mono_strong [OF tr]) (rule budget_bounds)
  have c: "list_all (\<lambda>w. implementation_progress (state (engine_step w))
                      = implementation_progress (state w)
                    \<or> implementation_progress (state (engine_step w))
                      = min 1 (implementation_progress (state w) + 1 / 10)) (engine_trace n ?i)"
    by (rule list.pred_mono_strong [OF tr]) (rule budget_step_clamped)
  have f: "progress_budget (fold node_process nodes ?i)"
    by (rule budget_fold [OF budget_initial])
  have m: "implementation_progress (state (fold node_process nodes ?i))
       \<le> implementation_progress (state (node_process node (fold node_process nodes ?i)))"
    using progress_node_process [of node "fold node_process nodes ?i"] by auto
  have u: "implementation_progress (state (node_process node (fold node_process nodes ?i))) \<le> 1"
    using budget_bounds [OF budget_node_process [OF f, of node]] by simp
  from trace_sorted [of n ?i] b c m u show ?thesis by blast
qed

theorem progress_is_monotone_and_bounded_witness:
  "map (\<lambda>w. implementation_progress (state w))
     (engine_trace 4 (initial_world (Some example_tools) ''Demo'' [])) = [0, 0, 1 / 10, 1 / 5]
   \<and> sorted (map (\<lambda>w. implementation_progress (state w))
             (engine_trace 4 (initial_world (Some example_tools) ''Demo'' [])))
   \<and> implementation_progress (state (node_process ''world_builder''
        (fold node_process [''director''] (initial_world (Some example_tools) ''Demo'' []))))
      \<le> 1"
proof -
  have "map (\<lambda>w. implementation_progress (state w))
     (engine_trace 4 (initial_world (Some example_tools) ''Demo'' [])) = [0, 0, 1 / 10, 1 / 5]"
    by code_simp
  with progress_is_monotone_and_bounded
    [of 4 "Some example_tools" "''Demo''" "[]" "[''director'']" "''world_builder''"]
  show ?thesis by blast
qed

section \<open>Id allocation\<close>






end
